theory Spec2Isabelle
  imports Main "HOL-Library.Word" "HOL-Library.AList"
begin

unbundle bit_operations_syntax

section \<open>The channel funding manager\<close>

text \<open>
  A shallow embedding of the parts of the funding manager (package \<open>lnd\<close>, the file
  that defines \<open>fundingManager\<close>) that the properties below are about: the store of
  channel opening states, the reservation registry with \<open>failFundingFlow\<close> and the zombie
  sweep, the admission checks of \<open>handleFundingOpen\<close>, the PSBT branch of
  \<open>handleFundingAccept\<close>, the confirmation wait and the node ordering of
  \<open>newChanAnnouncement\<close>.

  Collaborators that live outside the file (wallet, channel database, chain notifier,
  peer, signer) are represented by the results their calls return, given as arguments;
  every call to one of them and every message or error handed to somebody else is
  appended to a trace of events.
\<close>

subsection \<open>Bytes and byte orders\<close>

type_synonym byte = "8 word"
type_synonym bytes = "byte list"

text \<open>
  \<open>encoding/binary\<close>: the two implementations of \<open>binary.ByteOrder\<close>. The variable
  \<open>byteOrder\<close> of package \<open>lnd\<close> is declared in another file of the package, so the
  functions that use it take the byte order as an argument.
\<close>

datatype ByteOrder = BigEndian | LittleEndian

fun PutUint16 :: "ByteOrder \<Rightarrow> 16 word \<Rightarrow> bytes" where
  "PutUint16 BigEndian v = [ucast (drop_bit 8 v), ucast v]"
| "PutUint16 LittleEndian v = [ucast v, ucast (drop_bit 8 v)]"

fun PutUint32 :: "ByteOrder \<Rightarrow> 32 word \<Rightarrow> bytes" where
  "PutUint32 BigEndian v =
     [ucast (drop_bit 24 v), ucast (drop_bit 16 v), ucast (drop_bit 8 v), ucast v]"
| "PutUint32 LittleEndian v =
     [ucast v, ucast (drop_bit 8 v), ucast (drop_bit 16 v), ucast (drop_bit 24 v)]"

fun PutUint64 :: "ByteOrder \<Rightarrow> 64 word \<Rightarrow> bytes" where
  "PutUint64 BigEndian v =
     [ucast (drop_bit 56 v), ucast (drop_bit 48 v), ucast (drop_bit 40 v),
      ucast (drop_bit 32 v), ucast (drop_bit 24 v), ucast (drop_bit 16 v),
      ucast (drop_bit 8 v), ucast v]"
| "PutUint64 LittleEndian v =
     [ucast v, ucast (drop_bit 8 v), ucast (drop_bit 16 v), ucast (drop_bit 24 v),
      ucast (drop_bit 32 v), ucast (drop_bit 40 v), ucast (drop_bit 48 v),
      ucast (drop_bit 56 v)]"

text \<open>
  \<open>Uint16\<close> and \<open>Uint64\<close> read the first 2 and 8 bytes of a slice and panic on a
  shorter one; the callers below test the length before they read.
\<close>

fun Uint16 :: "ByteOrder \<Rightarrow> bytes \<Rightarrow> 16 word" where
  "Uint16 BigEndian b = ucast (b ! 1) OR push_bit 8 (ucast (b ! 0))"
| "Uint16 LittleEndian b = ucast (b ! 0) OR push_bit 8 (ucast (b ! 1))"

fun Uint64 :: "ByteOrder \<Rightarrow> bytes \<Rightarrow> 64 word" where
  "Uint64 BigEndian b =
     ucast (b ! 7) OR push_bit 8 (ucast (b ! 6)) OR push_bit 16 (ucast (b ! 5)) OR
     push_bit 24 (ucast (b ! 4)) OR push_bit 32 (ucast (b ! 3)) OR
     push_bit 40 (ucast (b ! 2)) OR push_bit 48 (ucast (b ! 1)) OR
     push_bit 56 (ucast (b ! 0))"
| "Uint64 LittleEndian b =
     ucast (b ! 0) OR push_bit 8 (ucast (b ! 1)) OR push_bit 16 (ucast (b ! 2)) OR
     push_bit 24 (ucast (b ! 3)) OR push_bit 32 (ucast (b ! 4)) OR
     push_bit 40 (ucast (b ! 5)) OR push_bit 48 (ucast (b ! 6)) OR
     push_bit 56 (ucast (b ! 7))"

subsection \<open>Errors\<close>

text \<open>
  A Go \<open>error\<close> value, as far as the funding manager looks at it: its dynamic type, which
  the type switch of \<open>failFundingFlow\<close> and the type assertion of \<open>handleFundingAccept\<close>
  inspect, and the text its \<open>Error()\<close> method returns. \<open>ErrorString\<close> stands for every
  error of another type (\<open>errors.New\<close>, \<open>fmt.Errorf\<close>, database and transport errors).
  \<open>RuntimePanic\<close> is not an error value: it marks a run that ends in a panic.
\<close>

datatype go_error =
    ErrorString string
  | ReservationError string
  | FundingError string
  | PsbtFundingRequired
  | RuntimePanic

fun Error :: "go_error \<Rightarrow> string" where
  "Error (ErrorString s) = s"
| "Error (ReservationError s) = s"
| "Error (FundingError s) = s"
| "Error PsbtFundingRequired = ''PSBT funding required''"
| "Error RuntimePanic = ''panic''"

definition ErrFundingManagerShuttingDown :: go_error where
  "ErrFundingManagerShuttingDown = ErrorString ''funding manager shutting down''"

definition ErrConfirmationTimeout :: go_error where
  "ErrConfirmationTimeout = ErrorString ''timeout waiting for funding confirmation''"

definition ErrChannelNotFound :: go_error where
  "ErrChannelNotFound = ErrorString ''channel not found''"

subsection \<open>The store of channel opening states\<close>

text \<open>\<open>type channelOpeningState uint8\<close> with its three constants.\<close>

type_synonym channelOpeningState = "8 word"

definition markedOpen :: channelOpeningState where
  "markedOpen = 0"

definition fundingLockedSent :: channelOpeningState where
  "fundingLockedSent = 1"

definition addedToRouterGraph :: channelOpeningState where
  "addedToRouterGraph = 2"

text \<open>\<open>wire.OutPoint\<close>: a 32-byte transaction hash and a \<open>uint32\<close> output index.\<close>

record OutPoint =
  Hash :: bytes
  Index :: "32 word"

text \<open>
  Modelled from the spec: \<open>writeOutpoint\<close> is declared in another file of package
  \<open>lnd\<close>. The spec gives the key of the bucket as the canonical serialised outpoint,
  the 32-byte hash followed by the 4-byte little-endian index. Writing into a
  \<open>bytes.Buffer\<close> does not fail.
\<close>

definition writeOutpoint :: "OutPoint \<Rightarrow> bytes" where
  "writeOutpoint chanPoint = Hash chanPoint @ PutUint32 LittleEndian (Index chanPoint)"

text \<open>
  Modelled from the spec: package \<open>channeldb/kvdb\<close> is not part of the sources at hand.
  The spec asks of the store atomic update, read and delete, one transaction per
  operation. A database is a map from the names of its top-level buckets to buckets, a
  bucket a map from keys to values; an update whose closure returns an error is rolled
  back, so it leaves the database as it was. Failures of the storage medium are not
  modelled.
\<close>

type_synonym bucket = "bytes \<rightharpoonup> bytes"
type_synonym DB = "string \<rightharpoonup> bucket"

definition channelOpeningStateBucket :: string where
  "channelOpeningStateBucket = ''channelOpeningState''"

definition CreateTopLevelBucket :: "DB \<Rightarrow> string \<Rightarrow> DB" where
  "CreateTopLevelBucket db name =
     (case db name of None \<Rightarrow> db(name \<mapsto> Map.empty) | Some b \<Rightarrow> db)"

definition Put :: "DB \<Rightarrow> string \<Rightarrow> bytes \<Rightarrow> bytes \<Rightarrow> DB" where
  "Put db name key val =
     (case db name of None \<Rightarrow> db | Some b \<Rightarrow> db(name \<mapsto> b(key \<mapsto> val)))"

definition Delete :: "DB \<Rightarrow> string \<Rightarrow> bytes \<Rightarrow> DB" where
  "Delete db name key =
     (case db name of None \<Rightarrow> db | Some b \<Rightarrow> db(name \<mapsto> b(key := None)))"

text \<open>
  \<open>saveChannelOpeningState\<close>. The short channel id type \<open>lnwire.ShortChannelID\<close> and
  its conversions \<open>ToUint64\<close> and \<open>NewShortChanIDFromInt\<close> belong to package
  \<open>lnwire\<close>, which is not among the sources: the type is a type variable and the two
  conversions are arguments.
\<close>

definition saveChannelOpeningState ::
  "ByteOrder \<Rightarrow> ('scid \<Rightarrow> 64 word) \<Rightarrow> DB \<Rightarrow> OutPoint \<Rightarrow> channelOpeningState \<Rightarrow> 'scid
     \<Rightarrow> go_error + DB" where
  "saveChannelOpeningState byteOrder ToUint64 db chanPoint state shortChanID =
     (let tx = CreateTopLevelBucket db channelOpeningStateBucket;
          outpointBytes = writeOutpoint chanPoint;
          scratch = PutUint16 byteOrder (ucast state) @
                    PutUint64 byteOrder (ToUint64 shortChanID)
      in Inr (Put tx channelOpeningStateBucket outpointBytes scratch))"

text \<open>
  \<open>getChannelOpeningState\<close>. \<open>value[:2]\<close>, \<open>value[2:]\<close> and the reads of \<open>Uint16\<close>
  and \<open>Uint64\<close> panic on a value of fewer than 10 bytes.
\<close>

definition getChannelOpeningState ::
  "ByteOrder \<Rightarrow> (64 word \<Rightarrow> 'scid) \<Rightarrow> DB \<Rightarrow> OutPoint
     \<Rightarrow> go_error + (channelOpeningState \<times> 'scid)" where
  "getChannelOpeningState byteOrder NewShortChanIDFromInt db chanPoint =
     (case db channelOpeningStateBucket of
        None \<Rightarrow> Inl ErrChannelNotFound
      | Some bucket \<Rightarrow>
          (case bucket (writeOutpoint chanPoint) of
             None \<Rightarrow> Inl ErrChannelNotFound
           | Some val \<Rightarrow>
               if length val < 10 then Inl RuntimePanic
               else Inr (ucast (Uint16 byteOrder (take 2 val)),
                         NewShortChanIDFromInt (Uint64 byteOrder (drop 2 val)))))"

definition deleteChannelOpeningState :: "DB \<Rightarrow> OutPoint \<Rightarrow> go_error + DB" where
  "deleteChannelOpeningState db chanPoint =
     (case db channelOpeningStateBucket of
        None \<Rightarrow> Inl (ErrorString ''bucket not found'')
      | Some bucket \<Rightarrow>
          Inr (Delete db channelOpeningStateBucket (writeOutpoint chanPoint)))"

text \<open>
  Later saves and deletes, run one after the other. A failed operation is a rolled-back
  transaction: the database stays as it was.
\<close>

datatype 'scid store_op =
    SaveOp OutPoint channelOpeningState 'scid
  | DeleteOp OutPoint

fun op_target :: "'scid store_op \<Rightarrow> OutPoint" where
  "op_target (SaveOp p s c) = p"
| "op_target (DeleteOp p) = p"

fun run_op :: "ByteOrder \<Rightarrow> ('scid \<Rightarrow> 64 word) \<Rightarrow> DB \<Rightarrow> 'scid store_op \<Rightarrow> DB" where
  "run_op byteOrder ToUint64 db (SaveOp p s c) =
     (case saveChannelOpeningState byteOrder ToUint64 db p s c of
        Inl e \<Rightarrow> db | Inr db' \<Rightarrow> db')"
| "run_op byteOrder ToUint64 db (DeleteOp p) =
     (case deleteChannelOpeningState db p of Inl e \<Rightarrow> db | Inr db' \<Rightarrow> db')"

fun run_ops :: "ByteOrder \<Rightarrow> ('scid \<Rightarrow> 64 word) \<Rightarrow> DB \<Rightarrow> 'scid store_op list \<Rightarrow> DB" where
  "run_ops byteOrder ToUint64 db [] = db"
| "run_ops byteOrder ToUint64 db (x # xs) =
     run_ops byteOrder ToUint64 (run_op byteOrder ToUint64 db x) xs"

text \<open>The record stored for an outpoint, read straight from the bucket.\<close>

definition stored_record :: "DB \<Rightarrow> OutPoint \<Rightarrow> bytes option" where
  "stored_record db chanPoint =
     (case db channelOpeningStateBucket of
        None \<Rightarrow> None
      | Some bucket \<Rightarrow> bucket (writeOutpoint chanPoint))"

text \<open>
  The layout of the value in the words of the spec: the state ordinal in 2 bytes,
  little-endian, then the packed short channel id in 8 bytes, big-endian.
\<close>

definition spec_record_value :: "channelOpeningState \<Rightarrow> 64 word \<Rightarrow> bytes" where
  "spec_record_value state packed =
     PutUint16 LittleEndian (ucast state) @ PutUint64 BigEndian packed"

subsection \<open>Peers, wallet reservations and the reservation registry\<close>

text \<open>
  A \<open>*btcec.PublicKey\<close> is represented by its compressed serialisation (33 bytes), an
  amount in satoshi (\<open>btcutil.Amount\<close>, an \<open>int64\<close> that is only compared here) by an
  integer, a \<open>lnwire.MilliSatoshi\<close> by a natural number. A \<open>time.Time\<close> is the
  number of nanoseconds since the zero instant, so \<open>IsZero\<close> is equality with 0.
\<close>

type_synonym PublicKey = bytes
type_synonym serializedPubKey = bytes
type_synonym chanID = bytes
type_synonym Amount = int
type_synonym MilliSatoshi = nat
type_synonym Time = int
type_synonym Duration = int

definition newSerializedKey :: "PublicKey \<Rightarrow> serializedPubKey" where
  \<comment> \<open>\<open>copy(s[:], pubKey.SerializeCompressed())\<close> into a zeroed \<open>[33]byte\<close>\<close>
  "newSerializedKey pubKey = take 33 (pubKey @ replicate 33 0)"

text \<open>
  \<open>time.Since(t)\<close> is \<open>time.Now().Sub(t)\<close>; \<open>Sub\<close> saturates at the least and the
  greatest \<open>Duration\<close> (an \<open>int64\<close> of nanoseconds).
\<close>

definition time_Since :: "Time \<Rightarrow> Time \<Rightarrow> Duration" where
  "time_Since now t =
     (let d = now - t
      in if d > 2 ^ 63 - 1 then 2 ^ 63 - 1 else if d < - (2 ^ 63) then - (2 ^ 63) else d)"

datatype FeatureBit = AnchorsOptional | StaticRemoteKeyOptional | UpfrontShutdownScriptOptional

definition HasFeature :: "FeatureBit list \<Rightarrow> FeatureBit \<Rightarrow> bool" where
  "HasFeature fv b = (b \<in> set fv)"

text \<open>
  \<open>lnpeer.Peer\<close>: the identity key, the feature vectors, and what \<open>SendMessage\<close>
  returns (\<open>None\<close> for a \<open>nil\<close> error).
\<close>

record Peer =
  IdentityKey :: PublicKey
  SendMessage :: "go_error option"
  LocalFeatures :: "FeatureBit list"
  RemoteFeatures :: "FeatureBit list"

text \<open>
  The fields that \<open>lnwire.OpenChannel\<close> and \<open>lnwire.AcceptChannel\<close> share, and the
  two messages as extensions. The public keys and the commitment point, which the
  handlers copy through unchanged, are left out.
\<close>

record ChannelParams =
  PendingChannelID :: chanID
  DustLimit :: Amount
  MaxValueInFlight :: MilliSatoshi
  ChannelReserve :: Amount
  HtlcMinimum :: MilliSatoshi
  CsvDelay :: "16 word"
  MaxAcceptedHTLCs :: "16 word"
  UpfrontShutdownScript :: bytes

record OpenChannel = ChannelParams +
  ChainHash :: bytes
  FundingAmount :: Amount
  PushAmount :: MilliSatoshi
  FeePerKiloWeight :: "32 word"
  ChannelFlags :: byte

record AcceptChannel = ChannelParams +
  MinAcceptDepth :: "32 word"

datatype lnwire_Message =
    Error_msg chanID string
  | AcceptChannel_msg "AcceptChannel"
  | FundingCreated_msg chanID OutPoint bytes

datatype CommitmentType =
  CommitmentTypeLegacy | CommitmentTypeTweakless | CommitmentTypeAnchors

definition commitmentType :: "FeatureBit list \<Rightarrow> FeatureBit list \<Rightarrow> CommitmentType" where
  "commitmentType localFeatures remoteFeatures =
     (if HasFeature localFeatures AnchorsOptional \<and> HasFeature remoteFeatures AnchorsOptional
      then CommitmentTypeAnchors
      else if HasFeature localFeatures StaticRemoteKeyOptional \<and>
              HasFeature remoteFeatures StaticRemoteKeyOptional
      then CommitmentTypeTweakless
      else CommitmentTypeLegacy)"

text \<open>
  \<open>lnwallet.ChannelReservation\<close> is a handle into the wallet. It is represented by the
  answers its methods give to the funding manager: \<open>None\<close> is a \<open>nil\<close> error.
  \<open>PsbtFundingParams\<close> and \<open>PsbtSerialize\<close> are the results of
  \<open>Intent.FundingParams()\<close> and of serialising the packet, for a reservation whose
  \<open>ProcessContribution\<close> answers with \<open>PsbtFundingRequired\<close>; \<open>OurCommitSig\<close> is
  \<open>lnwire.NewSigFromSignature\<close> applied to the signature of \<open>OurSignatures()\<close>.
\<close>

record ChannelReservation =
  IsCannedShim :: bool
  IsPsbt :: bool
  Cancel :: "go_error option"
  CommitConstraints :: "go_error option"
  ProcessSingleContribution :: "go_error option"
  ProcessContribution :: "go_error option"
  PsbtFundingParams :: "go_error + (string \<times> int)"
  PsbtSerialize :: "go_error + bytes"
  OurDustLimit :: Amount
  OurUpfrontShutdown :: bytes
  FundingOutpoint :: OutPoint
  OurCommitSig :: "go_error + bytes"

record reservationWithCtx =
  reservation :: ChannelReservation
  ctx_peer :: Peer
  chanAmt :: Amount
  remoteCsvDelay :: "16 word"
  remoteMinHtlc :: MilliSatoshi
  remoteMaxValue :: MilliSatoshi
  remoteMaxHtlcs :: "16 word"
  maxLocalCsv :: "16 word"
  lastUpdated :: Time

definition isLocked :: "reservationWithCtx \<Rightarrow> bool" where
  \<comment> \<open>the time zero value represents a locked reservation\<close>
  "isLocked r = (lastUpdated r = 0)"

definition updateTimestamp :: "Time \<Rightarrow> reservationWithCtx \<Rightarrow> reservationWithCtx" where
  "updateTimestamp now r = r\<lparr>lastUpdated := now\<rparr>"

record InitFundingReserveMsg =
  req_ChainHash :: bytes
  req_PendingChanID :: chanID
  req_NodeID :: PublicKey
  req_LocalFundingAmt :: Amount
  req_RemoteFundingAmt :: Amount
  req_CommitFeePerKw :: "32 word"
  req_FundingFeePerKw :: int
  req_PushMSat :: MilliSatoshi
  req_Flags :: byte
  req_MinConfs :: int
  req_CommitType :: CommitmentType

record ChannelConstraints =
  cc_DustLimit :: Amount
  cc_ChanReserve :: Amount
  cc_MaxPendingAmount :: MilliSatoshi
  cc_MinHTLC :: MilliSatoshi
  cc_MaxAcceptedHtlcs :: "16 word"
  cc_CsvDelay :: "16 word"

text \<open>
  Everything the funding manager does to somebody else, in the order it does it: calls
  to the channel database, the wallet, a wallet reservation and the channel acceptor,
  sends on the error and update channels of a reservation context (named by the slot
  of the registry the context was found in), messages handed to a peer, goroutines
  started. A send on a channel is taken to go through.
\<close>

datatype event =
    DB_FetchOpenChannels PublicKey
  | Wallet_IsSynced
  | Acceptor_Accept PublicKey chanID
  | Wallet_InitChannelReservation InitFundingReserveMsg
  | Reservation_SetNumConfsRequired chanID "16 word"
  | Reservation_CommitConstraints chanID ChannelConstraints "16 word"
  | Reservation_SetOurUpfrontShutdown chanID bytes
  | Reservation_ProcessSingleContribution chanID ChannelConstraints
  | Reservation_ProcessContribution chanID ChannelConstraints
  | Reservation_RemoteCanceled serializedPubKey chanID
  | Reservation_Cancel serializedPubKey chanID
  | Ctx_err_send serializedPubKey chanID go_error
  | Ctx_updates_PsbtFund serializedPubKey chanID string int bytes
  | Peer_SendMessage PublicKey bool lnwire_Message
  | Go_waitForPsbt serializedPubKey chanID

text \<open>
  The state of a \<open>fundingManager\<close>. A Go map is iterated in an order the language
  leaves open, and two loops below depend on the order, so the maps of reservations are
  association lists: the list order is the iteration order, and lookup, insertion and
  deletion are those of a map.
\<close>

type_synonym pendingChannels = "(chanID \<times> reservationWithCtx) list"

record fundingManager =
  activeReservations :: "(serializedPubKey \<times> pendingChannels) list"
  signedReservations :: "(bytes \<times> chanID) list"
  newChanBarriers :: "bytes list"
  trace :: "event list"

definition emit :: "event \<Rightarrow> fundingManager \<Rightarrow> fundingManager" where
  "emit e f = f\<lparr>trace := trace f @ [e]\<rparr>"

record fundingConfig =
  MaxPendingChannels :: int
  MinChanSize :: Amount
  MaxChanSize :: Amount
  RejectPush :: bool
  MaxLocalCSVDelay :: "16 word"
  DefaultMinHtlcIn :: MilliSatoshi
  EnableUpfrontShutdown :: bool
  ReservationTimeout :: Duration
  NumRequiredConfs :: "Amount \<Rightarrow> MilliSatoshi \<Rightarrow> 16 word"
  RequiredRemoteDelay :: "Amount \<Rightarrow> 16 word"
  RequiredRemoteChanReserve :: "Amount \<Rightarrow> Amount \<Rightarrow> Amount"
  RequiredRemoteMaxValue :: "Amount \<Rightarrow> MilliSatoshi"
  RequiredRemoteMaxHTLCs :: "Amount \<Rightarrow> 16 word"

text \<open>
  What the other packages contribute to one run of a handler: the error values and
  constants of \<open>lnwire\<close>, \<open>lnwallet\<close> and \<open>chainntnfs\<close> that the handlers name
  (these packages are not among the sources, so their values are arguments), the
  results of the calls to the channel database, the wallet and the channel acceptor,
  and the reading of the clock. \<open>NewAddressScript\<close> is the result of the closure that
  \<open>getUpfrontShutdownScript\<close> may call.
\<close>

record channeldb_OpenChannel =
  IsPending :: bool
  ThawHeight :: "32 word"

record env =
  ErrMaxPendingChannels :: go_error
  ErrSynchronizingChain :: go_error
  ErrChanTooLarge :: "Amount \<Rightarrow> Amount \<Rightarrow> go_error"
  ErrChanTooSmall :: "Amount \<Rightarrow> Amount \<Rightarrow> go_error"
  ErrNonZeroPushAmount :: go_error
  ErrNumConfsTooLarge :: "32 word \<Rightarrow> 32 word \<Rightarrow> go_error"
  MaxNumConfs :: "32 word"
  FetchOpenChannels :: "go_error + channeldb_OpenChannel list"
  IsSynced :: "bool \<times> go_error option"
  Accept :: bool
  InitChannelReservation :: "go_error + ChannelReservation"
  NewAddressScript :: "go_error + bytes"
  time_Now :: Time

fun hexdigit :: "nat \<Rightarrow> char" where
  "hexdigit n = ''0123456789abcdef'' ! (n mod 16)"

definition hex :: "bytes \<Rightarrow> string" where
  \<comment> \<open>the verb \<open>%x\<close> on a byte slice\<close>
  "hex bs = concat (map (\<lambda>b. [hexdigit (unat b div 16), hexdigit (unat b)]) bs)"

text \<open>\<open>getReservationCtx\<close>.\<close>

definition getReservationCtx ::
  "PublicKey \<Rightarrow> chanID \<Rightarrow> fundingManager \<Rightarrow> go_error + reservationWithCtx" where
  "getReservationCtx peerKey pendingChanID f =
     (let peerIDKey = newSerializedKey peerKey
      in case map_of (activeReservations f) peerIDKey of
           None \<Rightarrow> Inl (ErrorString (''unknown channel (id: '' @ hex pendingChanID @
                    '') for peer('' @ hex peerIDKey @ '')''))
         | Some nodeReservations \<Rightarrow>
             (case map_of nodeReservations pendingChanID of
                None \<Rightarrow> Inl (ErrorString (''unknown channel (id: '' @ hex pendingChanID @
                    '') for peer('' @ hex peerIDKey @ '')''))
              | Some resCtx \<Rightarrow> Inr resCtx))"

text \<open>
  \<open>cancelReservationCtx\<close>: the context and the error it returns (one of the two is
  \<open>nil\<close>), and the state it leaves.
\<close>

definition cancelReservationCtx ::
  "PublicKey \<Rightarrow> chanID \<Rightarrow> bool \<Rightarrow> fundingManager
     \<Rightarrow> reservationWithCtx option \<times> go_error option \<times> fundingManager" where
  "cancelReservationCtx peerKey pendingChanID byRemote f =
     (let peerIDKey = newSerializedKey peerKey
      in case map_of (activeReservations f) peerIDKey of
           None \<Rightarrow>
             (None, Some (ErrorString (''no active reservations for peer('' @
                hex peerIDKey @ '')'')), f)
         | Some nodeReservations \<Rightarrow>
             (case map_of nodeReservations pendingChanID of
                None \<Rightarrow>
                  (None, Some (ErrorString (''unknown channel (id: '' @ hex pendingChanID @
                     '') for peer('' @ hex peerIDKey @ '')'')), f)
              | Some ctx \<Rightarrow>
                  let f1 = (if IsPsbt (reservation ctx) \<and> byRemote
                            then emit (Reservation_RemoteCanceled peerIDKey pendingChanID) f
                            else f);
                      f2 = emit (Reservation_Cancel peerIDKey pendingChanID) f1
                  in case Cancel (reservation ctx) of
                       Some err \<Rightarrow>
                         (None, Some (ErrorString (''unable to cancel reservation: '' @
                            Error err)), f2)
                     | None \<Rightarrow>
                         let nodeReservations' = AList.delete pendingChanID nodeReservations;
                             active = (if length nodeReservations' = 0
                                       then AList.delete peerIDKey (activeReservations f2)
                                       else AList.update peerIDKey nodeReservations'
                                              (activeReservations f2))
                         in (Some ctx, None, f2\<lparr>activeReservations := active\<rparr>)))"

text \<open>
  \<open>failFundingFlow\<close>. \<open>errorData\<close> is its type switch: the text of the error for the
  two whitelisted types, a generic text for every other.
\<close>

definition errorData :: "go_error \<Rightarrow> string" where
  "errorData fundingErr =
     (case fundingErr of
        ReservationError s \<Rightarrow> Error fundingErr
      | FundingError s \<Rightarrow> Error fundingErr
      | _ \<Rightarrow> ''funding failed due to internal error'')"

definition failFundingFlow ::
  "Peer \<Rightarrow> chanID \<Rightarrow> go_error \<Rightarrow> fundingManager \<Rightarrow> fundingManager" where
  "failFundingFlow peer tempChanID fundingErr f =
     (let (ctx, err, f1) = cancelReservationCtx (IdentityKey peer) tempChanID False f;
          f2 = (case ctx of
                  None \<Rightarrow> f1
                | Some c \<Rightarrow>
                    emit (Ctx_err_send (newSerializedKey (IdentityKey peer)) tempChanID
                            fundingErr) f1);
          msg = errorData fundingErr;
          errMsg = Error_msg tempChanID msg
      in emit (Peer_SendMessage (IdentityKey peer) False errMsg) f2)"

text \<open>
  \<open>pruneZombieReservations\<close>. The first loop fills the map \<open>zombieReservations\<close>,
  which is keyed by the pending channel id alone; the second fails the funding flow of
  every entry of that map. The clock is read once for the run. The error text names the
  peer by its serialised key.
\<close>

fun collectZombies_peer ::
  "fundingConfig \<Rightarrow> Time \<Rightarrow> pendingChannels \<Rightarrow> pendingChannels \<Rightarrow> pendingChannels" where
  "collectZombies_peer cfg now [] zombieReservations = zombieReservations"
| "collectZombies_peer cfg now ((pendingChanID, resCtx) # rest) zombieReservations =
     (if isLocked resCtx then collectZombies_peer cfg now rest zombieReservations
      else
        let sinceLastUpdate = time_Since now (lastUpdated resCtx);
            isExpired = (sinceLastUpdate > ReservationTimeout cfg)
        in if \<not> IsPsbt (reservation resCtx) \<and> isExpired
           then collectZombies_peer cfg now rest
                  (AList.update pendingChanID resCtx zombieReservations)
           else collectZombies_peer cfg now rest zombieReservations)"

fun collectZombies ::
  "fundingConfig \<Rightarrow> Time \<Rightarrow> (serializedPubKey \<times> pendingChannels) list \<Rightarrow> pendingChannels
     \<Rightarrow> pendingChannels" where
  "collectZombies cfg now [] zombieReservations = zombieReservations"
| "collectZombies cfg now ((peerIDKey, pendingReservations) # rest) zombieReservations =
     collectZombies cfg now rest
       (collectZombies_peer cfg now pendingReservations zombieReservations)"

definition zombieError :: "reservationWithCtx \<Rightarrow> chanID \<Rightarrow> go_error" where
  "zombieError resCtx pendingChanID =
     ErrorString (''reservation timed out waiting for peer (peer_id:'' @
       hex (IdentityKey (ctx_peer resCtx)) @ '', chan_id:'' @ hex pendingChanID @ '')'')"

fun failZombies :: "pendingChannels \<Rightarrow> fundingManager \<Rightarrow> fundingManager" where
  "failZombies [] f = f"
| "failZombies ((pendingChanID, resCtx) # rest) f =
     failZombies rest
       (failFundingFlow (ctx_peer resCtx) pendingChanID (zombieError resCtx pendingChanID) f)"

definition pruneZombieReservations ::
  "fundingConfig \<Rightarrow> Time \<Rightarrow> fundingManager \<Rightarrow> fundingManager" where
  "pruneZombieReservations cfg now f =
     failZombies (collectZombies cfg now (activeReservations f) []) f"

text \<open>\<open>IsPendingChannel\<close>: is there a reservation context in the slot of the registry?\<close>

definition IsPendingChannel :: "chanID \<Rightarrow> Peer \<Rightarrow> fundingManager \<Rightarrow> bool" where
  "IsPendingChannel pendingChanID peer f =
     (let peerIDKey = newSerializedKey (IdentityKey peer)
      in case map_of (activeReservations f) peerIDKey of
           None \<Rightarrow> False
         | Some nodeReservations \<Rightarrow> map_of nodeReservations pendingChanID \<noteq> None)"

text \<open>
  A deferred \<open>resCtx.updateTimestamp()\<close> writes the clock into the context object the
  handler holds. The registry holds that same object in the slot the handler took it
  from or put it into, unless the handler has removed it in between; a removed context
  is no longer part of the state.
\<close>

definition updateTimestamp_deferred ::
  "Time \<Rightarrow> serializedPubKey \<Rightarrow> chanID \<Rightarrow> fundingManager \<Rightarrow> fundingManager" where
  "updateTimestamp_deferred now peerIDKey pendingChanID f =
     (case map_of (activeReservations f) peerIDKey of
        None \<Rightarrow> f
      | Some nodeReservations \<Rightarrow>
          (case map_of nodeReservations pendingChanID of
             None \<Rightarrow> f
           | Some resCtx \<Rightarrow>
               f\<lparr>activeReservations :=
                    AList.update peerIDKey
                      (AList.update pendingChanID (updateTimestamp now resCtx) nodeReservations)
                      (activeReservations f)\<rparr>))"

text \<open>\<open>getUpfrontShutdownScript\<close>; \<open>getScript\<close> is the result the closure would give.\<close>

definition getUpfrontShutdownScript ::
  "bool \<Rightarrow> Peer \<Rightarrow> bytes \<Rightarrow> (go_error + bytes) \<Rightarrow> go_error + bytes" where
  "getUpfrontShutdownScript enableUpfrontShutdown peer script getScript =
     (let remoteUpfrontShutdown = HasFeature (RemoteFeatures peer) UpfrontShutdownScriptOptional
      in if \<not> remoteUpfrontShutdown \<and> length script \<noteq> 0
         then Inl (ErrorString ''peer does not supportoption upfront shutdown script'')
         else if \<not> remoteUpfrontShutdown then Inr []
         else if length script > 0 then Inr script
         else if \<not> enableUpfrontShutdown then Inr []
         else getScript)"

text \<open>
  \<open>handleFundingOpen\<close>, in two parts: the admission checks, and from the call of
  \<open>InitChannelReservation\<close> on. The two loops that count the pending channels of the
  peer come first.
\<close>

definition reservationsOf :: "serializedPubKey \<Rightarrow> fundingManager \<Rightarrow> pendingChannels" where
  \<comment> \<open>\<open>f.activeReservations[peerIDKey]\<close>: a missing key gives a \<open>nil\<close> map, which has no entries\<close>
  "reservationsOf peerIDKey f =
     (case map_of (activeReservations f) peerIDKey of None \<Rightarrow> [] | Some rs \<Rightarrow> rs)"

fun countReservations :: "pendingChannels \<Rightarrow> int \<Rightarrow> int" where
  "countReservations [] numPending = numPending"
| "countReservations ((pendingChanID, res) # rest) numPending =
     countReservations rest
       (if \<not> IsCannedShim (reservation res) then numPending + 1 else numPending)"

fun countPendingChannels :: "channeldb_OpenChannel list \<Rightarrow> int \<Rightarrow> int" where
  "countPendingChannels [] numPending = numPending"
| "countPendingChannels (c # rest) numPending =
     countPendingChannels rest
       (if IsPending c \<and> ThawHeight c = 0 then numPending + 1 else numPending)"

definition openReserveMsg :: "Peer \<Rightarrow> OpenChannel \<Rightarrow> InitFundingReserveMsg" where
  \<comment> \<open>the request \<open>req\<close> that \<open>handleFundingOpen\<close> hands to \<open>InitChannelReservation\<close>\<close>
  "openReserveMsg peer msg =
     \<lparr>req_ChainHash = ChainHash msg,
      req_PendingChanID = PendingChannelID msg,
      req_NodeID = IdentityKey peer,
      req_LocalFundingAmt = 0,
      req_RemoteFundingAmt = FundingAmount msg,
      req_CommitFeePerKw = FeePerKiloWeight msg,
      req_FundingFeePerKw = 0,
      req_PushMSat = PushAmount msg,
      req_Flags = ChannelFlags msg,
      req_MinConfs = 1,
      req_CommitType = commitmentType (LocalFeatures peer) (RemoteFeatures peer)\<rparr>"

definition handleFundingOpen_reserve ::
  "fundingConfig \<Rightarrow> env \<Rightarrow> Peer \<Rightarrow> OpenChannel \<Rightarrow> fundingManager \<Rightarrow> fundingManager" where
  "handleFundingOpen_reserve cfg env peer msg f =
     (let peerPubKey = IdentityKey peer;
          peerIDKey = newSerializedKey peerPubKey;
          amt = FundingAmount msg;
          req = openReserveMsg peer msg;
          f1 = emit (Wallet_InitChannelReservation req) f
      in case InitChannelReservation env of
           Inl err \<Rightarrow> failFundingFlow peer (PendingChannelID msg) err f1
         | Inr res \<Rightarrow>
             let numConfsReq = NumRequiredConfs cfg (FundingAmount msg) (PushAmount msg);
                 f2 = emit (Reservation_SetNumConfsRequired (PendingChannelID msg) numConfsReq) f1;
                 channelConstraints =
                   \<lparr>cc_DustLimit = DustLimit msg,
                    cc_ChanReserve = ChannelReserve msg,
                    cc_MaxPendingAmount = MaxValueInFlight msg,
                    cc_MinHTLC = HtlcMinimum msg,
                    cc_MaxAcceptedHtlcs = MaxAcceptedHTLCs msg,
                    cc_CsvDelay = CsvDelay msg\<rparr>;
                 f3 = emit (Reservation_CommitConstraints (PendingChannelID msg)
                              channelConstraints (MaxLocalCSVDelay cfg)) f2
             in case CommitConstraints res of
                  Some err \<Rightarrow> failFundingFlow peer (PendingChannelID msg) err f3
                | None \<Rightarrow>
                    (case getUpfrontShutdownScript (EnableUpfrontShutdown cfg) peer []
                            (NewAddressScript env) of
                       Inl err \<Rightarrow>
                         failFundingFlow peer (PendingChannelID msg)
                           (ErrorString (''getUpfrontShutdownScript error: '' @ Error err)) f3
                     | Inr shutdown \<Rightarrow>
                         let f4 = emit (Reservation_SetOurUpfrontShutdown
                                          (PendingChannelID msg) shutdown) f3;
                             remoteCsvDelay = RequiredRemoteDelay cfg amt;
                             chanReserve = RequiredRemoteChanReserve cfg amt (DustLimit msg);
                             remoteMaxValue = RequiredRemoteMaxValue cfg amt;
                             maxHtlcs = RequiredRemoteMaxHTLCs cfg amt;
                             minHtlc = DefaultMinHtlcIn cfg;
                             resCtx = \<lparr>reservation = res,
                                       ctx_peer = peer,
                                       chanAmt = amt,
                                       remoteCsvDelay = remoteCsvDelay,
                                       remoteMinHtlc = minHtlc,
                                       remoteMaxValue = remoteMaxValue,
                                       remoteMaxHtlcs = maxHtlcs,
                                       maxLocalCsv = MaxLocalCSVDelay cfg,
                                       lastUpdated = 0\<rparr>;
                             nodeReservations = reservationsOf peerIDKey f4;
                             f5 = f4\<lparr>activeReservations :=
                                       AList.update peerIDKey
                                         (AList.update (PendingChannelID msg) resCtx
                                            nodeReservations)
                                         (activeReservations f4)\<rparr>;
                             remoteConstraints =
                               \<lparr>cc_DustLimit = DustLimit msg,
                                cc_ChanReserve = chanReserve,
                                cc_MaxPendingAmount = remoteMaxValue,
                                cc_MinHTLC = minHtlc,
                                cc_MaxAcceptedHtlcs = maxHtlcs,
                                cc_CsvDelay = remoteCsvDelay\<rparr>;
                             f6 = emit (Reservation_ProcessSingleContribution
                                          (PendingChannelID msg) remoteConstraints) f5;
                             f7 = (case ProcessSingleContribution res of
                                     Some err \<Rightarrow>
                                       failFundingFlow peer (PendingChannelID msg) err f6
                                   | None \<Rightarrow>
                                       let fundingAccept =
                                             \<lparr>PendingChannelID = PendingChannelID msg,
                                              DustLimit = OurDustLimit res,
                                              MaxValueInFlight = remoteMaxValue,
                                              ChannelReserve = chanReserve,
                                              HtlcMinimum = minHtlc,
                                              CsvDelay = remoteCsvDelay,
                                              MaxAcceptedHTLCs = maxHtlcs,
                                              UpfrontShutdownScript = OurUpfrontShutdown res,
                                              MinAcceptDepth = ucast numConfsReq\<rparr>;
                                           f8 = emit (Peer_SendMessage peerPubKey True
                                                        (AcceptChannel_msg fundingAccept)) f6
                                       in case SendMessage peer of
                                            Some err \<Rightarrow>
                                              failFundingFlow peer (PendingChannelID msg) err f8
                                          | None \<Rightarrow> f8)
                         in updateTimestamp_deferred (time_Now env) peerIDKey
                              (PendingChannelID msg) f7))"

definition handleFundingOpen ::
  "fundingConfig \<Rightarrow> env \<Rightarrow> Peer \<Rightarrow> OpenChannel \<Rightarrow> fundingManager \<Rightarrow> fundingManager" where
  "handleFundingOpen cfg env peer msg f =
     (let peerPubKey = IdentityKey peer;
          peerIDKey = newSerializedKey peerPubKey;
          amt = FundingAmount msg;
          reservations = reservationsOf peerIDKey f;
          numPending = countReservations reservations 0;
          f1 = emit (DB_FetchOpenChannels peerPubKey) f
      in case FetchOpenChannels env of
           Inl err \<Rightarrow> failFundingFlow peer (PendingChannelID msg) err f1
         | Inr channels \<Rightarrow>
             let numPending = countPendingChannels channels numPending
             in if numPending \<ge> MaxPendingChannels cfg
                then failFundingFlow peer (PendingChannelID msg) (ErrMaxPendingChannels env) f1
                else
                  let f2 = emit Wallet_IsSynced f1
                  in if snd (IsSynced env) \<noteq> None \<or> \<not> fst (IsSynced env)
                     then failFundingFlow peer (PendingChannelID msg)
                            (ErrSynchronizingChain env) f2
                     else if amt > MaxChanSize cfg
                     then failFundingFlow peer (PendingChannelID msg)
                            (ErrChanTooLarge env amt (MaxChanSize cfg)) f2
                     else if amt < MinChanSize cfg
                     then failFundingFlow peer (PendingChannelID msg)
                            (ErrChanTooSmall env amt (MinChanSize cfg)) f2
                     else if RejectPush cfg \<and> PushAmount msg > 0
                     then failFundingFlow peer (PendingChannelID msg)
                            (ErrNonZeroPushAmount env) f2
                     else
                       let f3 = emit (Acceptor_Accept peerPubKey (PendingChannelID msg)) f2
                       in if \<not> Accept env
                          then failFundingFlow peer (PendingChannelID msg)
                                 (ErrorString ''open channel request rejected'') f3
                          else handleFundingOpen_reserve cfg env peer msg f3)"

text \<open>
  \<open>continueFundingAccept\<close> and \<open>handleFundingAccept\<close>. The permanent channel id
  \<open>lnwire.NewChanIDFromOutPoint\<close> is computed outside the sources; an argument stands
  for it. \<open>waitForPsbt\<close> runs as a goroutine of its own: starting it is an event, and
  the handler returns without waiting for it.
\<close>

definition continueFundingAccept ::
  "(OutPoint \<Rightarrow> bytes) \<Rightarrow> reservationWithCtx \<Rightarrow> chanID \<Rightarrow> fundingManager \<Rightarrow> fundingManager" where
  "continueFundingAccept NewChanIDFromOutPoint resCtx pendingChanID f =
     (let outPoint = FundingOutpoint (reservation resCtx);
          channelID = NewChanIDFromOutPoint outPoint;
          f1 = f\<lparr>newChanBarriers := List.insert channelID (newChanBarriers f)\<rparr>;
          f2 = f1\<lparr>signedReservations :=
                     AList.update channelID pendingChanID (signedReservations f1)\<rparr>
      in case OurCommitSig (reservation resCtx) of
           Inl err \<Rightarrow> failFundingFlow (ctx_peer resCtx) pendingChanID err f2
         | Inr sig \<Rightarrow>
             let f3 = emit (Peer_SendMessage (IdentityKey (ctx_peer resCtx)) True
                              (FundingCreated_msg pendingChanID outPoint sig)) f2
             in case SendMessage (ctx_peer resCtx) of
                  Some err \<Rightarrow> failFundingFlow (ctx_peer resCtx) pendingChanID err f3
                | None \<Rightarrow> f3)"

definition handleFundingAccept ::
  "fundingConfig \<Rightarrow> env \<Rightarrow> (OutPoint \<Rightarrow> bytes) \<Rightarrow> Peer \<Rightarrow> AcceptChannel \<Rightarrow> fundingManager
     \<Rightarrow> fundingManager" where
  "handleFundingAccept cfg env NewChanIDFromOutPoint peer msg f =
     (let pendingChanID = PendingChannelID msg;
          peerKey = IdentityKey peer;
          peerIDKey = newSerializedKey peerKey
      in case getReservationCtx peerKey pendingChanID f of
           Inl err \<Rightarrow> f
         | Inr resCtx \<Rightarrow>
             updateTimestamp_deferred (time_Now env) peerIDKey pendingChanID
               (if MinAcceptDepth msg > MaxNumConfs env
                then failFundingFlow peer (PendingChannelID msg)
                       (ErrNumConfsTooLarge env (MinAcceptDepth msg) (MaxNumConfs env)) f
                else
                  let f1 = emit (Reservation_SetNumConfsRequired pendingChanID
                                   (ucast (MinAcceptDepth msg))) f;
                      channelConstraints =
                        \<lparr>cc_DustLimit = DustLimit msg,
                         cc_ChanReserve = ChannelReserve msg,
                         cc_MaxPendingAmount = MaxValueInFlight msg,
                         cc_MinHTLC = HtlcMinimum msg,
                         cc_MaxAcceptedHtlcs = MaxAcceptedHTLCs msg,
                         cc_CsvDelay = CsvDelay msg\<rparr>;
                      f2 = emit (Reservation_CommitConstraints pendingChanID
                                   channelConstraints (maxLocalCsv resCtx)) f1
                  in case CommitConstraints (reservation resCtx) of
                       Some err \<Rightarrow> failFundingFlow peer (PendingChannelID msg) err f2
                     | None \<Rightarrow>
                         let chanReserve = RequiredRemoteChanReserve cfg (chanAmt resCtx)
                                             (DustLimit msg);
                             remoteConstraints =
                               \<lparr>cc_DustLimit = DustLimit msg,
                                cc_ChanReserve = chanReserve,
                                cc_MaxPendingAmount = remoteMaxValue resCtx,
                                cc_MinHTLC = remoteMinHtlc resCtx,
                                cc_MaxAcceptedHtlcs = remoteMaxHtlcs resCtx,
                                cc_CsvDelay = remoteCsvDelay resCtx\<rparr>;
                             f3 = emit (Reservation_ProcessContribution pendingChanID
                                          remoteConstraints) f2
                         in case ProcessContribution (reservation resCtx) of
                              Some PsbtFundingRequired \<Rightarrow>
                                (case PsbtFundingParams (reservation resCtx) of
                                   Inl err \<Rightarrow>
                                     failFundingFlow peer (PendingChannelID msg) err f3
                                 | Inr (addr, amt) \<Rightarrow>
                                     (case PsbtSerialize (reservation resCtx) of
                                        Inl err \<Rightarrow>
                                          failFundingFlow peer (PendingChannelID msg) err f3
                                      | Inr buf \<Rightarrow>
                                          emit (Go_waitForPsbt peerIDKey pendingChanID)
                                            (emit (Ctx_updates_PsbtFund peerIDKey pendingChanID
                                                     addr amt buf) f3)))
                            | Some err \<Rightarrow> failFundingFlow peer (PendingChannelID msg) err f3
                            | None \<Rightarrow>
                                continueFundingAccept NewChanIDFromOutPoint resCtx
                                  pendingChanID f3))"

subsection \<open>Waiting for the funding confirmation\<close>

text \<open>
  \<open>waitForFundingWithTimeout\<close> starts \<open>waitForFundingConfirmation\<close> as a goroutine
  and, for a channel we did not initiate, \<open>waitForTimeout\<close> as a second one, and then
  blocks in a \<open>select\<close>. One run is described by what the chain notifier answers and by
  the cases the three \<open>select\<close> statements take, in the order they take them; the
  functions below compute what the run returns. A case of the outer \<open>select\<close> can
  only be taken when a goroutine has made its channel ready: the result is \<open>None\<close>
  for a case that is not ready, that is, for a combination that is no run.
\<close>

record ShortChannelID =
  BlockHeight :: "32 word"
  TxIndex :: "32 word"
  TxPosition :: "16 word"

record TxConfirmation =
  conf_BlockHeight :: "32 word"
  conf_TxIndex :: "32 word"
  conf_Tx :: bytes

record confirmedChannel =
  confirmed_shortChanID :: ShortChannelID
  confirmed_fundingTx :: bytes

record pending_OpenChannel =
  IsInitiator :: bool
  FundingBroadcastHeight :: "32 word"
  FundingOutpointOf :: OutPoint
  NumConfsRequired :: "16 word"

definition maxWaitNumBlocksFundingConf :: "32 word" where
  "maxWaitNumBlocksFundingConf = 2016"

text \<open>
  The cases of the \<open>select\<close> in \<open>waitForFundingConfirmation\<close>: a confirmation
  arrives (and then the send on \<open>confChan\<close> goes through, or \<open>quit\<close> is taken
  instead), the notifier closes its channel, \<open>cancelChan\<close> or \<open>quit\<close> is closed.
\<close>

datatype conf_select =
    Confirmed_recv TxConfirmation bool
  | Confirmed_closed
  | conf_cancelChan_closed
  | conf_quit_closed

text \<open>What \<open>waitForFundingConfirmation\<close> has done to \<open>confChan\<close>.\<close>

datatype conf_outcome = confChan_sent confirmedChannel | confChan_closed | confChan_idle

definition waitForFundingConfirmation ::
  "pending_OpenChannel \<Rightarrow> go_error option \<Rightarrow> go_error option \<Rightarrow> conf_select option
     \<Rightarrow> conf_outcome" where
  "waitForFundingConfirmation completeChan makeFundingScript_err
       RegisterConfirmationsNtfn_err sel =
     (case makeFundingScript_err of
        Some err \<Rightarrow> confChan_closed
      | None \<Rightarrow>
          (case RegisterConfirmationsNtfn_err of
             Some err \<Rightarrow> confChan_closed
           | None \<Rightarrow>
               (case sel of
                  None \<Rightarrow> confChan_idle
                | Some (Confirmed_recv confDetails sent) \<Rightarrow>
                    let fundingPoint = FundingOutpointOf completeChan;
                        shortChanID = \<lparr>BlockHeight = conf_BlockHeight confDetails,
                                       TxIndex = conf_TxIndex confDetails,
                                       TxPosition = ucast (Index fundingPoint)\<rparr>
                    in if sent
                       then confChan_sent \<lparr>confirmed_shortChanID = shortChanID,
                                           confirmed_fundingTx = conf_Tx confDetails\<rparr>
                       else confChan_closed
                | Some Confirmed_closed \<Rightarrow> confChan_closed
                | Some conf_cancelChan_closed \<Rightarrow> confChan_closed
                | Some conf_quit_closed \<Rightarrow> confChan_closed)))"

text \<open>
  The cases of the \<open>select\<close> in the loop of \<open>waitForTimeout\<close>: a block epoch with
  its height, the epoch channel closed, \<open>cancelChan\<close> or \<open>quit\<close> closed. The height
  is an \<open>int32\<close>, kept as its 32 bits: \<open>uint32(epoch.Height)\<close> reads the same bits
  as an unsigned number, and \<open>sint\<close> gives the signed value.
  The loop ends by closing \<open>timeoutChan\<close>, by sending an error on it, or by returning
  without a signal; it is still running when the cases taken so far are used up.
\<close>

datatype timeout_select =
    Epoch_recv "32 word"
  | Epochs_closed
  | cancelChan_closed
  | quit_closed

datatype timeout_outcome =
    timeoutChan_closed
  | timeoutChan_sent go_error
  | timeout_returned
  | timeout_running

fun waitForTimeout_loop :: "32 word \<Rightarrow> timeout_select list \<Rightarrow> timeout_outcome" where
  "waitForTimeout_loop maxHeight [] = timeout_running"
| "waitForTimeout_loop maxHeight (Epoch_recv height # rest) =
     (if height \<ge> maxHeight then timeoutChan_closed
      else waitForTimeout_loop maxHeight rest)"
| "waitForTimeout_loop maxHeight (Epochs_closed # rest) =
     timeoutChan_sent (ErrorString ''epoch client shutting down'')"
| "waitForTimeout_loop maxHeight (cancelChan_closed # rest) = timeout_returned"
| "waitForTimeout_loop maxHeight (quit_closed # rest) = timeout_returned"

definition waitForTimeout ::
  "pending_OpenChannel \<Rightarrow> go_error option \<Rightarrow> timeout_select list \<Rightarrow> timeout_outcome" where
  "waitForTimeout completeChan RegisterBlockEpochNtfn_err sels =
     (case RegisterBlockEpochNtfn_err of
        Some err \<Rightarrow>
          timeoutChan_sent
            (ErrorString (''unable to register for epoch notification: '' @ Error err))
      | None \<Rightarrow>
          let maxHeight = FundingBroadcastHeight completeChan + maxWaitNumBlocksFundingConf
          in waitForTimeout_loop maxHeight sels)"

datatype main_select = timeoutChan_ready | quit_ready | confChan_ready

record wait_run =
  makeFundingScript_err :: "go_error option"
  RegisterConfirmationsNtfn_err :: "go_error option"
  conf_case :: "conf_select option"
  RegisterBlockEpochNtfn_err :: "go_error option"
  timeout_cases :: "timeout_select list"
  main_case :: main_select

definition waitForFundingWithTimeout ::
  "pending_OpenChannel \<Rightarrow> wait_run \<Rightarrow> (go_error + confirmedChannel) option" where
  "waitForFundingWithTimeout ch r =
     (let conf = waitForFundingConfirmation ch (makeFundingScript_err r)
                   (RegisterConfirmationsNtfn_err r) (conf_case r);
          timeout = (if \<not> IsInitiator ch
                     then Some (waitForTimeout ch (RegisterBlockEpochNtfn_err r)
                                  (timeout_cases r))
                     else None)
      in case main_case r of
           timeoutChan_ready \<Rightarrow>
             (case timeout of
                Some (timeoutChan_sent err) \<Rightarrow> Some (Inl err)
              | Some timeoutChan_closed \<Rightarrow> Some (Inl ErrConfirmationTimeout)
              | _ \<Rightarrow> None)
         | quit_ready \<Rightarrow> Some (Inl ErrFundingManagerShuttingDown)
         | confChan_ready \<Rightarrow>
             (case conf of
                confChan_sent confirmedChannel \<Rightarrow> Some (Inr confirmedChannel)
              | confChan_closed \<Rightarrow>
                  Some (Inl (ErrorString ''waiting for fundingconfirmation failed''))
              | confChan_idle \<Rightarrow> None))"

subsection \<open>The channel announcement\<close>

text \<open>
  \<open>bytes.Compare\<close>: \<open>-1\<close>, \<open>0\<close> or \<open>1\<close> for the lexicographic order of two byte
  slices, bytes compared as unsigned numbers.
\<close>

fun bytes_Compare :: "bytes \<Rightarrow> bytes \<Rightarrow> int" where
  "bytes_Compare [] [] = 0"
| "bytes_Compare [] (y # ys) = - 1"
| "bytes_Compare (x # xs) [] = 1"
| "bytes_Compare (x # xs) (y # ys) =
     (if x < y then - 1 else if y < x then 1 else bytes_Compare xs ys)"

definition copy33 :: "bytes \<Rightarrow> bytes" where
  \<comment> \<open>\<open>copy(dst[:], src)\<close> into a zeroed \<open>[33]byte\<close>\<close>
  "copy33 src = take 33 (src @ replicate 33 0)"

record 'scid ChannelAnnouncement =
  ca_ShortChannelID :: 'scid
  ca_ChainHash :: bytes
  NodeID1 :: bytes
  NodeID2 :: bytes
  BitcoinKey1 :: bytes
  BitcoinKey2 :: bytes

record 'scid ChannelUpdate =
  cu_ShortChannelID :: 'scid
  cu_ChainHash :: bytes
  cu_Timestamp :: "32 word"
  cu_MessageFlags :: byte
  cu_ChannelFlags :: byte
  cu_TimeLockDelta :: "16 word"
  HtlcMinimumMsat :: "64 word"
  HtlcMaximumMsat :: "64 word"
  cu_BaseFee :: "32 word"
  cu_FeeRate :: "32 word"
  cu_Signature :: bytes

record 'scid AnnounceSignatures =
  as_ChannelID :: bytes
  as_ShortChannelID :: 'scid
  NodeSignature :: bytes
  BitcoinSignature :: bytes

record 'scid chanAnnouncement =
  chanAnn :: "'scid ChannelAnnouncement"
  chanUpdateAnn :: "'scid ChannelUpdate"
  chanProof :: "'scid AnnounceSignatures"

text \<open>
  What \<open>newChanAnnouncement\<close> takes from the configuration and from other packages:
  the genesis hash, our identity key, the default routing policy, the clock in Unix
  seconds, the flag \<open>lnwire.ChanUpdateOptionMaxHtlc\<close>, the serialisers
  \<open>DataToSign\<close> of the two messages, the signer and \<open>lnwire.NewSigFromSignature\<close>.
\<close>

record 'scid ann_env =
  GenesisHash :: bytes
  IDKey :: PublicKey
  policy_TimeLockDelta :: "32 word"
  policy_BaseFee :: "64 word"
  policy_FeeRate :: "64 word"
  time_Now_Unix :: "64 word"
  ChanUpdateOptionMaxHtlc :: byte
  ChannelUpdate_DataToSign :: "'scid ChannelUpdate \<Rightarrow> go_error + bytes"
  ChannelAnnouncement_DataToSign :: "'scid ChannelAnnouncement \<Rightarrow> go_error + bytes"
  SignMessage :: "PublicKey \<Rightarrow> bytes \<Rightarrow> go_error + bytes"
  NewSigFromSignature :: "bytes \<Rightarrow> go_error + bytes"

definition newChanAnnouncement ::
  "'scid ann_env \<Rightarrow> PublicKey \<Rightarrow> PublicKey \<Rightarrow> PublicKey \<Rightarrow> PublicKey \<Rightarrow> 'scid \<Rightarrow> bytes
     \<Rightarrow> 64 word \<Rightarrow> 64 word \<Rightarrow> go_error + 'scid chanAnnouncement" where
  "newChanAnnouncement cfg localPubKey remotePubKey localFundingKey remoteFundingKey
       shortChanID chanID fwdMinHTLC fwdMaxHTLC =
     (let chainHash = GenesisHash cfg;
          selfBytes = localPubKey;
          remoteBytes = remotePubKey;
          (chanAnn, chanFlags) =
            (if bytes_Compare selfBytes remoteBytes = - 1
             then (\<lparr>ca_ShortChannelID = shortChanID, ca_ChainHash = chainHash,
                     NodeID1 = copy33 localPubKey, NodeID2 = copy33 remotePubKey,
                     BitcoinKey1 = copy33 localFundingKey,
                     BitcoinKey2 = copy33 remoteFundingKey\<rparr>, 0)
             else (\<lparr>ca_ShortChannelID = shortChanID, ca_ChainHash = chainHash,
                     NodeID1 = copy33 remotePubKey, NodeID2 = copy33 localPubKey,
                     BitcoinKey1 = copy33 remoteFundingKey,
                     BitcoinKey2 = copy33 localFundingKey\<rparr>, 1));
          msgFlags = ChanUpdateOptionMaxHtlc cfg;
          chanUpdateAnn =
            \<lparr>cu_ShortChannelID = shortChanID, cu_ChainHash = chainHash,
             cu_Timestamp = ucast (time_Now_Unix cfg),
             cu_MessageFlags = msgFlags, cu_ChannelFlags = chanFlags,
             cu_TimeLockDelta = ucast (policy_TimeLockDelta cfg),
             HtlcMinimumMsat = fwdMinHTLC, HtlcMaximumMsat = fwdMaxHTLC,
             cu_BaseFee = ucast (policy_BaseFee cfg), cu_FeeRate = ucast (policy_FeeRate cfg),
             cu_Signature = []\<rparr>
      in case ChannelUpdate_DataToSign cfg chanUpdateAnn of
           Inl err \<Rightarrow> Inl err
         | Inr chanUpdateMsg \<Rightarrow>
         (case SignMessage cfg (IDKey cfg) chanUpdateMsg of
            Inl err \<Rightarrow>
              Inl (ErrorString (''unable to generate channel update announcement signature: ''
                     @ Error err))
          | Inr sig \<Rightarrow>
          (case NewSigFromSignature cfg sig of
             Inl err \<Rightarrow>
               Inl (ErrorString (''unable to generate channel update announcement signature: ''
                      @ Error err))
           | Inr updateSig \<Rightarrow>
           (case ChannelAnnouncement_DataToSign cfg chanAnn of
              Inl err \<Rightarrow> Inl err
            | Inr chanAnnMsg \<Rightarrow>
            (case SignMessage cfg (IDKey cfg) chanAnnMsg of
               Inl err \<Rightarrow>
                 Inl (ErrorString (''unable to generate node signature for channel announcement: ''
                        @ Error err))
             | Inr nodeSig \<Rightarrow>
             (case SignMessage cfg localFundingKey chanAnnMsg of
                Inl err \<Rightarrow>
                  Inl (ErrorString (''unable to generate bitcoin signature for node public key: ''
                         @ Error err))
              | Inr bitcoinSig \<Rightarrow>
              (case NewSigFromSignature cfg nodeSig of
                 Inl err \<Rightarrow> Inl err
               | Inr nodeSignature \<Rightarrow>
               (case NewSigFromSignature cfg bitcoinSig of
                  Inl err \<Rightarrow> Inl err
                | Inr bitcoinSignature \<Rightarrow>
                    Inr \<lparr>chanAnn = chanAnn,
                         chanUpdateAnn = chanUpdateAnn\<lparr>cu_Signature := updateSig\<rparr>,
                         chanProof = \<lparr>as_ChannelID = chanID,
                                      as_ShortChannelID = shortChanID,
                                      NodeSignature = nodeSignature,
                                      BitcoinSignature = bitcoinSignature\<rparr>\<rparr>))))))))"

text \<open>
  A later state extends an earlier one when its trace is the earlier trace followed by
  events that all satisfy a given predicate.
\<close>

definition extends_with :: "(event \<Rightarrow> bool) \<Rightarrow> fundingManager \<Rightarrow> fundingManager \<Rightarrow> bool" where
  "extends_with P g h \<longleftrightarrow> (\<exists>evs. trace h = trace g @ evs \<and> list_all P evs)"

text \<open>The value that a save leaves under the key of its outpoint.\<close>

definition saved_value ::
  "ByteOrder \<Rightarrow> ('scid \<Rightarrow> 64 word) \<Rightarrow> DB \<Rightarrow> OutPoint \<Rightarrow> channelOpeningState \<Rightarrow> 'scid
     \<Rightarrow> bytes option" where
  "saved_value byteOrder ToUint64 db chanPoint state shortChanID =
     (case saveChannelOpeningState byteOrder ToUint64 db chanPoint state shortChanID of
        Inl e \<Rightarrow> None
      | Inr db' \<Rightarrow> stored_record db' chanPoint)"

text \<open>Two funding outpoints used as concrete inputs.\<close>

definition outpoint_a :: OutPoint where
  "outpoint_a = \<lparr>Hash = replicate 32 1, Index = 0\<rparr>"

definition outpoint_b :: OutPoint where
  "outpoint_b = \<lparr>Hash = replicate 32 2, Index = 1\<rparr>"

text \<open>Two peers, a pending channel id, a wallet reservation and a configuration.\<close>

definition alice :: Peer where
  "alice = \<lparr>IdentityKey = 2 # replicate 32 10, SendMessage = None, LocalFeatures = [],
     RemoteFeatures = []\<rparr>"

definition bob :: Peer where
  "bob = \<lparr>IdentityKey = 3 # replicate 32 11, SendMessage = None, LocalFeatures = [],
     RemoteFeatures = []\<rparr>"

definition chan_x :: chanID where
  "chan_x = replicate 32 7"

definition wallet_res :: ChannelReservation where
  "wallet_res = \<lparr>IsCannedShim = False, IsPsbt = False, Cancel = None,
     CommitConstraints = None, ProcessSingleContribution = None, ProcessContribution = None,
     PsbtFundingParams = Inr (''bc1qfunding'', 100000), PsbtSerialize = Inr [112, 115, 98, 116],
     OurDustLimit = 573, OurUpfrontShutdown = [],
     FundingOutpoint = outpoint_a, OurCommitSig = Inr [48, 68]\<rparr>"

definition ctx_of :: "Peer \<Rightarrow> ChannelReservation \<Rightarrow> Time \<Rightarrow> reservationWithCtx" where
  "ctx_of p r t = \<lparr>reservation = r, ctx_peer = p, chanAmt = 100000, remoteCsvDelay = 144,
     remoteMinHtlc = 1, remoteMaxValue = 99000000, remoteMaxHtlcs = 483, maxLocalCsv = 2016,
     lastUpdated = t\<rparr>"

definition fm_of :: "(serializedPubKey \<times> pendingChannels) list \<Rightarrow> fundingManager" where
  "fm_of rs = \<lparr>activeReservations = rs, signedReservations = [], newChanBarriers = [],
     trace = []\<rparr>"

definition cfg0 :: fundingConfig where
  "cfg0 = \<lparr>MaxPendingChannels = 1, MinChanSize = 20000, MaxChanSize = 16777215,
     RejectPush = False, MaxLocalCSVDelay = 2016, DefaultMinHtlcIn = 1,
     EnableUpfrontShutdown = False, ReservationTimeout = 600000000000,
     NumRequiredConfs = (\<lambda>a p. 3), RequiredRemoteDelay = (\<lambda>a. 144),
     RequiredRemoteChanReserve = (\<lambda>a d. a div 100),
     RequiredRemoteMaxValue = (\<lambda>a. nat a * 990),
     RequiredRemoteMaxHTLCs = (\<lambda>a. 483)\<rparr>"

definition now1 :: Time where
  "now1 = 1000000000000"

definition env0 :: env where
  "env0 = \<lparr>ErrMaxPendingChannels = FundingError ''number of pending channels exceed maximum'',
     ErrSynchronizingChain = FundingError ''synchronizing blockchain'',
     ErrChanTooLarge = (\<lambda>a m. ReservationError ''chan size exceeds maximum chan size''),
     ErrChanTooSmall = (\<lambda>a m. ReservationError ''chan size is below min chan size''),
     ErrNonZeroPushAmount = ReservationError ''non-zero push amounts are disabled'',
     ErrNumConfsTooLarge = (\<lambda>a m. ReservationError ''minimum depth exceeds maximum''),
     MaxNumConfs = 42, FetchOpenChannels = Inr [], IsSynced = (True, None), Accept = True,
     InitChannelReservation = Inr wallet_res, NewAddressScript = Inr [0, 20],
     time_Now = now1\<rparr>"

text \<open>The same collaborators with a wallet that is still catching up with the chain.\<close>

definition env_unsynced :: env where
  "env_unsynced = env0\<lparr>IsSynced := (False, None)\<rparr>"

text \<open>The same collaborators with a channel database that cannot be read.\<close>

definition env_db_down :: env where
  "env_db_down = env0\<lparr>FetchOpenChannels := Inl (ErrorString ''database not open'')\<rparr>"

definition chan_y :: chanID where
  "chan_y = replicate 32 8"

definition open_msg :: "Amount \<Rightarrow> OpenChannel" where
  "open_msg amt = \<lparr>PendingChannelID = chan_y, DustLimit = 573, MaxValueInFlight = 99000000,
     ChannelReserve = 1000, HtlcMinimum = 1, CsvDelay = 144, MaxAcceptedHTLCs = 483,
     UpfrontShutdownScript = [], ChainHash = replicate 32 0, FundingAmount = amt,
     PushAmount = 0, FeePerKiloWeight = 253, ChannelFlags = 1\<rparr>"

definition accept_msg :: AcceptChannel where
  "accept_msg = \<lparr>PendingChannelID = chan_x, DustLimit = 573, MaxValueInFlight = 99000000,
     ChannelReserve = 1000, HtlcMinimum = 1, CsvDelay = 144, MaxAcceptedHTLCs = 483,
     UpfrontShutdownScript = [], MinAcceptDepth = 3\<rparr>"

text \<open>
  A reservation of ours that the wallet funds through a PSBT, last touched when the
  \<open>Open\<close> message went out.
\<close>

definition psbt_res :: ChannelReservation where
  "psbt_res = wallet_res\<lparr>IsPsbt := True, ProcessContribution := Some PsbtFundingRequired\<rparr>"

definition psbt_flow :: fundingManager where
  "psbt_flow = fm_of [(IdentityKey alice, [(chan_x, ctx_of alice psbt_res 5)])]"

text \<open>A peer with one pending reservation.\<close>

definition one_pending :: fundingManager where
  "one_pending = fm_of [(IdentityKey alice, [(chan_x, ctx_of alice wallet_res 5)])]"

text \<open>
  Two peers, each with one reservation under the same pending channel id, both idle for
  longer than the reservation timeout.
\<close>

definition two_peers :: fundingManager where
  "two_peers = fm_of [(IdentityKey alice, [(chan_x, ctx_of alice wallet_res 5)]),
                      (IdentityKey bob, [(chan_x, ctx_of bob wallet_res 6)])]"

text \<open>A reservation whose wallet refuses to cancel it.\<close>

definition stuck_reservation :: fundingManager where
  "stuck_reservation =
     fm_of [(IdentityKey alice,
             [(chan_x, ctx_of alice (wallet_res\<lparr>Cancel := Some (ErrorString ''wallet busy'')\<rparr>) 5)])]"

text \<open>
  A channel the peer funds, broadcast at height 700000, and a channel we fund; a run in
  which the watcher sees the blocks up to the deadline and the outer \<open>select\<close> takes
  the timeout signal, the same run one block short, and a run in which the notifier
  refuses the registration for confirmations.
\<close>

definition chan_theirs :: pending_OpenChannel where
  "chan_theirs = \<lparr>IsInitiator = False, FundingBroadcastHeight = 700000,
     FundingOutpointOf = outpoint_a, NumConfsRequired = 3\<rparr>"

definition chan_ours :: pending_OpenChannel where
  "chan_ours = chan_theirs\<lparr>IsInitiator := True\<rparr>"

definition run_deadline :: wait_run where
  "run_deadline = \<lparr>makeFundingScript_err = None, RegisterConfirmationsNtfn_err = None,
     conf_case = None, RegisterBlockEpochNtfn_err = None,
     timeout_cases = [Epoch_recv 700001, Epoch_recv 702015, Epoch_recv 702016],
     main_case = timeoutChan_ready\<rparr>"

definition run_one_short :: wait_run where
  "run_one_short = run_deadline\<lparr>timeout_cases := [Epoch_recv 700001, Epoch_recv 702015]\<rparr>"

definition run_notifier_down :: wait_run where
  "run_notifier_down = \<lparr>makeFundingScript_err = None,
     RegisterConfirmationsNtfn_err = Some (ErrorString ''chain notifier shutting down''),
     conf_case = None, RegisterBlockEpochNtfn_err = None, timeout_cases = [],
     main_case = confChan_ready\<rparr>"

text \<open>Two identity keys and the collaborators of an announcement.\<close>

definition key_lo :: PublicKey where
  "key_lo = 2 # replicate 32 17"

definition key_hi :: PublicKey where
  "key_hi = 3 # replicate 32 5"

definition ann_env0 :: "nat ann_env" where
  "ann_env0 = \<lparr>GenesisHash = replicate 32 0, IDKey = key_hi, policy_TimeLockDelta = 40,
     policy_BaseFee = 1000, policy_FeeRate = 1, time_Now_Unix = 1600000000,
     ChanUpdateOptionMaxHtlc = 1,
     ChannelUpdate_DataToSign = (\<lambda>u. Inr [1]),
     ChannelAnnouncement_DataToSign = (\<lambda>a. Inr [2]),
     SignMessage = (\<lambda>k m. Inr (k @ m)),
     NewSigFromSignature = (\<lambda>s. Inr s)\<rparr>"

text \<open>
  Modelled from the spec: package \<open>lnwire\<close> is not among the sources. The store functions
  take its conversions \<open>ShortChannelID.ToUint64\<close> and \<open>NewShortChanIDFromInt\<close> as
  arguments. The spec gives the short channel id as block height, transaction index and
  output index, packed into 8 bytes; the pair below packs them as BOLT 7 does, the block
  height in the top 3 bytes, the transaction index in the next 3 bytes and the output
  position in the low 2 bytes, and reads them back from there. The fields themselves are
  the \<open>uint32\<close>, \<open>uint32\<close> and \<open>uint16\<close> that \<open>waitForFundingConfirmation\<close> fills in.
\<close>

definition packed_ToUint64 :: "ShortChannelID \<Rightarrow> 64 word" where
  "packed_ToUint64 c =
     push_bit 40 (ucast (BlockHeight c)) OR push_bit 16 (ucast (TxIndex c)) OR
     ucast (TxPosition c)"

definition packed_NewShortChanIDFromInt :: "64 word \<Rightarrow> ShortChannelID" where
  "packed_NewShortChanIDFromInt chanID =
     \<lparr>BlockHeight = ucast (drop_bit 40 chanID),
      TxIndex = ucast (drop_bit 16 chanID) AND 0xFFFFFF,
      TxPosition = ucast chanID\<rparr>"

text \<open>
  Two short channel ids at block 700000, output 1: one of the 8th transaction of the
  block, and one with the transaction index \<open>2 ^ 24 + 7\<close>, which a \<open>uint32\<close> holds and 3
  bytes do not.
\<close>

definition scid_ok :: ShortChannelID where
  "scid_ok = \<lparr>BlockHeight = 700000, TxIndex = 7, TxPosition = 1\<rparr>"

definition scid_wide :: ShortChannelID where
  "scid_wide = \<lparr>BlockHeight = 700000, TxIndex = 16777223, TxPosition = 1\<rparr>"

section \<open>Properties\<close>

subsection \<open>Byte orders\<close>

lemma Uint16_PutUint16: "Uint16 bo (PutUint16 bo v) = v"
  by (cases bo; rule bit_word_eqI) (auto simp add: bit_simps)

lemma bit_lane:
  fixes v :: "64 word"
  assumes "n < 64"
  shows "bit (push_bit k (ucast (ucast (drop_bit k v) :: byte)) :: 64 word) n
           \<longleftrightarrow> k \<le> n \<and> n < k + 8 \<and> bit v n"
  using assms by (auto simp add: bit_simps)

lemma bit_lane0:
  fixes v :: "64 word"
  assumes "n < 64"
  shows "bit (ucast (ucast v :: byte) :: 64 word) n \<longleftrightarrow> n < 8 \<and> bit v n"
  using assms by (auto simp add: bit_simps)

lemma Uint64_PutUint64_bits:
  assumes "n < 64"
  shows "bit (Uint64 BigEndian (PutUint64 BigEndian v)) n = bit v n"
    and "bit (Uint64 LittleEndian (PutUint64 LittleEndian v)) n = bit v n"
proof -
  consider "n < 8" | "8 \<le> n \<and> n < 16" | "16 \<le> n \<and> n < 24" | "24 \<le> n \<and> n < 32"
    | "32 \<le> n \<and> n < 40" | "40 \<le> n \<and> n < 48" | "48 \<le> n \<and> n < 56" | "56 \<le> n"
    by linarith
  then show "bit (Uint64 BigEndian (PutUint64 BigEndian v)) n = bit v n"
    using assms by cases (simp_all add: bit_or_iff bit_lane bit_lane0)
  show "bit (Uint64 LittleEndian (PutUint64 LittleEndian v)) n = bit v n"
    using assms by (simp add: bit_or_iff bit_lane bit_lane0) linarith
qed

lemma Uint64_PutUint64: "Uint64 bo (PutUint64 bo v) = v"
  by (cases bo; rule bit_word_eqI) (simp_all add: Uint64_PutUint64_bits del: Uint64.simps PutUint64.simps)

lemma length_PutUint16 [simp]: "length (PutUint16 bo v) = 2"
  by (cases bo) simp_all

lemma length_PutUint32 [simp]: "length (PutUint32 bo v) = 4"
  by (cases bo) simp_all

lemma length_PutUint64 [simp]: "length (PutUint64 bo v) = 8"
  by (cases bo) simp_all

lemma ucast_state_roundtrip: "ucast (ucast (s :: 8 word) :: 16 word) = s"
  by (rule bit_word_eqI) (simp add: bit_simps)

subsection \<open>The store of channel opening states\<close>

lemma writeOutpoint_inj:
  assumes "length (Hash p) = length (Hash q)" and "writeOutpoint p = writeOutpoint q"
  shows "p = q"
proof -
  from assms have h: "Hash p = Hash q"
    and i: "PutUint32 LittleEndian (Index p) = PutUint32 LittleEndian (Index q)"
    by (simp_all add: writeOutpoint_def)
  have "Index p = Index q"
  proof (rule bit_word_eqI)
    fix n
    assume "n < LENGTH(32)"
    then have n: "n < 32"
      by simp
    from i have e: "(ucast (Index p) :: byte) = ucast (Index q)"
      "(ucast (drop_bit 8 (Index p)) :: byte) = ucast (drop_bit 8 (Index q))"
      "(ucast (drop_bit 16 (Index p)) :: byte) = ucast (drop_bit 16 (Index q))"
      "(ucast (drop_bit 24 (Index p)) :: byte) = ucast (drop_bit 24 (Index q))"
      by simp_all
    consider "n < 8" | "8 \<le> n \<and> n < 16" | "16 \<le> n \<and> n < 24" | "24 \<le> n"
      by linarith
    then show "bit (Index p) n = bit (Index q) n"
    proof cases
      case 1
      from e(1) have "bit (ucast (Index p) :: byte) n = bit (ucast (Index q) :: byte) n"
        by simp
      with 1 show ?thesis
        by (simp add: bit_simps)
    next
      case 2
      from e(2) have "bit (ucast (drop_bit 8 (Index p)) :: byte) (n - 8)
          = bit (ucast (drop_bit 8 (Index q)) :: byte) (n - 8)"
        by simp
      with 2 show ?thesis
        by (auto simp add: bit_simps)
    next
      case 3
      from e(3) have "bit (ucast (drop_bit 16 (Index p)) :: byte) (n - 16)
          = bit (ucast (drop_bit 16 (Index q)) :: byte) (n - 16)"
        by simp
      with 3 show ?thesis
        by (auto simp add: bit_simps)
    next
      case 4
      from e(4) have "bit (ucast (drop_bit 24 (Index p)) :: byte) (n - 24)
          = bit (ucast (drop_bit 24 (Index q)) :: byte) (n - 24)"
        by simp
      with 4 n show ?thesis
        by (auto simp add: bit_simps)
    qed
  qed
  with h show ?thesis
    by simp
qed

lemma stored_record_save:
  "saveChannelOpeningState bo toU db p s c = Inr db' \<Longrightarrow>
   stored_record db' p = Some (PutUint16 bo (ucast s) @ PutUint64 bo (toU c))"
  by (auto simp add: saveChannelOpeningState_def stored_record_def Put_def
      CreateTopLevelBucket_def Let_def split: option.splits)

lemma stored_record_save_other:
  "saveChannelOpeningState bo toU db q s c = Inr db' \<Longrightarrow>
   writeOutpoint q \<noteq> writeOutpoint p \<Longrightarrow> stored_record db' p = stored_record db p"
  by (auto simp add: saveChannelOpeningState_def stored_record_def Put_def
      CreateTopLevelBucket_def Let_def split: option.splits)

lemma stored_record_delete:
  "deleteChannelOpeningState db p = Inr db' \<Longrightarrow> stored_record db' p = None"
  by (auto simp add: deleteChannelOpeningState_def stored_record_def Delete_def
      split: option.splits)

lemma stored_record_delete_other:
  "deleteChannelOpeningState db q = Inr db' \<Longrightarrow>
   writeOutpoint q \<noteq> writeOutpoint p \<Longrightarrow> stored_record db' p = stored_record db p"
  by (auto simp add: deleteChannelOpeningState_def stored_record_def Delete_def
      split: option.splits)

lemma stored_record_run_op:
  "writeOutpoint (op_target x) \<noteq> writeOutpoint p \<Longrightarrow>
   stored_record (run_op bo toU db x) p = stored_record db p"
  by (cases x)
    (auto split: sum.splits dest: stored_record_save_other stored_record_delete_other)

lemma stored_record_run_ops:
  "\<forall>x \<in> set xs. writeOutpoint (op_target x) \<noteq> writeOutpoint p \<Longrightarrow>
   stored_record (run_ops bo toU db xs) p = stored_record db p"
  by (induction xs arbitrary: db) (simp_all add: stored_record_run_op)

lemma get_from_stored_record:
  "getChannelOpeningState bo fromU db p =
     (case stored_record db p of
        None \<Rightarrow> Inl ErrChannelNotFound
      | Some val \<Rightarrow>
          if length val < 10 then Inl RuntimePanic
          else Inr (ucast (Uint16 bo (take 2 val)), fromU (Uint64 bo (drop 2 val))))"
  by (simp add: getChannelOpeningState_def stored_record_def split: option.splits)

lemma get_of_saved_value:
  "stored_record db p = Some (PutUint16 bo (ucast s) @ PutUint64 bo u) \<Longrightarrow>
   getChannelOpeningState bo fromU db p = Inr (s, fromU u)"
  by (simp add: get_from_stored_record Uint16_PutUint16 Uint64_PutUint64
      ucast_state_roundtrip
      del: Uint16.simps Uint64.simps PutUint16.simps PutUint64.simps)

text \<open>
  A short channel id has 80 bits, so no pair of conversions through a \<open>uint64\<close> gives
  every short channel id back.
\<close>

lemma no_lossless_packing:
  fixes toU :: "ShortChannelID \<Rightarrow> 64 word"
  shows "\<not> (\<forall>scid. fromU (toU scid) = scid)"
proof
  assume r: "\<forall>scid. fromU (toU scid) = scid"
  define g :: "32 word \<times> 32 word \<times> 16 word \<Rightarrow> 64 word" where
    "g = (\<lambda>(a, b, c). toU \<lparr>BlockHeight = a, TxIndex = b, TxPosition = c\<rparr>)"
  have "inj g"
  proof (rule injI)
    fix x y assume e: "g x = g y"
    obtain a b c where x: "x = (a, b, c)" by (cases x)
    obtain a' b' c' where y: "y = (a', b', c')" by (cases y)
    from e x y have "fromU (toU \<lparr>BlockHeight = a, TxIndex = b, TxPosition = c\<rparr>)
        = fromU (toU \<lparr>BlockHeight = a', TxIndex = b', TxPosition = c'\<rparr>)"
      by (simp add: g_def)
    with r have "\<lparr>BlockHeight = a, TxIndex = b, TxPosition = c\<rparr>
        = \<lparr>BlockHeight = a', TxIndex = b', TxPosition = c'\<rparr>"
      by simp
    with x y show "x = y" by simp
  qed
  then have "card (UNIV :: (32 word \<times> 32 word \<times> 16 word) set) \<le> card (UNIV :: 64 word set)"
    by (intro card_inj_on_le [of g]) simp_all
  moreover have "card (UNIV :: (32 word \<times> 32 word \<times> 16 word) set) = 2 ^ 80"
    by (simp add: card_cartesian_product card_word flip: UNIV_Times_UNIV)
  moreover have "card (UNIV :: 64 word set) = 2 ^ 64"
    by (simp add: card_word)
  ultimately show False
    by simp
qed

text \<open>
  C1, as the code has it. After a successful \<open>saveChannelOpeningState\<close> of \<open>(s, scid)\<close>
  for an outpoint, and after any later saves and deletes that are all for other outpoints,
  \<open>getChannelOpeningState\<close> returns the state \<open>s\<close> with the short channel id
  \<open>NewShortChanIDFromInt (ToUint64 scid)\<close>, which went through the two conversions of
  \<open>lnwire\<close>: the result is exactly \<open>(s, scid)\<close> if and only if \<open>NewShortChanIDFromInt\<close>
  undoes \<open>ToUint64\<close> on \<open>scid\<close>. After a successful \<open>deleteChannelOpeningState\<close> it
  returns \<open>ErrChannelNotFound\<close>. The state may be any \<open>uint8\<close>, in particular one of
  the three opening states.
\<close>

theorem opening_state_roundtrip:
  "(saveChannelOpeningState byteOrder ToUint64 db chanPoint s scid = Inr db1 \<and>
    length (Hash chanPoint) = 32 \<and>
    (\<forall>x \<in> set later. op_target x \<noteq> chanPoint \<and> length (Hash (op_target x)) = 32)
    \<longrightarrow> getChannelOpeningState byteOrder NewShortChanIDFromInt
          (run_ops byteOrder ToUint64 db1 later) chanPoint
          = Inr (s, NewShortChanIDFromInt (ToUint64 scid))
        \<and> (getChannelOpeningState byteOrder NewShortChanIDFromInt
             (run_ops byteOrder ToUint64 db1 later) chanPoint = Inr (s, scid)
           \<longleftrightarrow> NewShortChanIDFromInt (ToUint64 scid) = scid))
   \<and> (deleteChannelOpeningState db chanPoint = Inr db2
    \<longrightarrow> getChannelOpeningState byteOrder NewShortChanIDFromInt db2 chanPoint
          = Inl ErrChannelNotFound)"
proof (intro conjI impI)
  assume a: "saveChannelOpeningState byteOrder ToUint64 db chanPoint s scid = Inr db1 \<and>
    length (Hash chanPoint) = 32 \<and>
    (\<forall>x \<in> set later. op_target x \<noteq> chanPoint \<and> length (Hash (op_target x)) = 32)"
  then have "\<forall>x \<in> set later. writeOutpoint (op_target x) \<noteq> writeOutpoint chanPoint"
    using writeOutpoint_inj by metis
  then have "stored_record (run_ops byteOrder ToUint64 db1 later) chanPoint
      = stored_record db1 chanPoint"
    by (rule stored_record_run_ops)
  also have "\<dots> = Some (PutUint16 byteOrder (ucast s) @ PutUint64 byteOrder (ToUint64 scid))"
    using a by (auto dest: stored_record_save)
  finally show g: "getChannelOpeningState byteOrder NewShortChanIDFromInt
      (run_ops byteOrder ToUint64 db1 later) chanPoint
      = Inr (s, NewShortChanIDFromInt (ToUint64 scid))"
    by (rule get_of_saved_value)
  show "getChannelOpeningState byteOrder NewShortChanIDFromInt
      (run_ops byteOrder ToUint64 db1 later) chanPoint = Inr (s, scid)
    \<longleftrightarrow> NewShortChanIDFromInt (ToUint64 scid) = scid"
    by (simp add: g)
next
  assume "deleteChannelOpeningState db chanPoint = Inr db2"
  then have "stored_record db2 chanPoint = None"
    by (rule stored_record_delete)
  then show "getChannelOpeningState byteOrder NewShortChanIDFromInt db2 chanPoint
      = Inl ErrChannelNotFound"
    by (simp add: get_from_stored_record)
qed

theorem opening_state_roundtrip_witness:
  "getChannelOpeningState BigEndian packed_NewShortChanIDFromInt
     (run_ops BigEndian packed_ToUint64
        (run_op BigEndian packed_ToUint64 Map.empty
           (SaveOp outpoint_a fundingLockedSent scid_ok))
        [SaveOp outpoint_b markedOpen scid_wide, DeleteOp outpoint_b,
         SaveOp outpoint_b addedToRouterGraph scid_ok])
     outpoint_a = Inr (fundingLockedSent, scid_ok)
   \<and> getChannelOpeningState BigEndian packed_NewShortChanIDFromInt
     (run_op BigEndian packed_ToUint64
        (run_op BigEndian packed_ToUint64 Map.empty
           (SaveOp outpoint_a fundingLockedSent scid_ok))
        (DeleteOp outpoint_a))
     outpoint_a = Inl ErrChannelNotFound"
proof -
  define db1 where
    "db1 = run_op BigEndian packed_ToUint64 Map.empty
       (SaveOp outpoint_a fundingLockedSent scid_ok)"
  define db2 where "db2 = run_op BigEndian packed_ToUint64 db1 (DeleteOp outpoint_a)"
  define later where
    "later = [SaveOp outpoint_b markedOpen scid_wide, DeleteOp outpoint_b,
              SaveOp outpoint_b addedToRouterGraph scid_ok]"
  have s: "saveChannelOpeningState BigEndian packed_ToUint64 Map.empty outpoint_a
      fundingLockedSent scid_ok = Inr db1"
    by (simp add: db1_def saveChannelOpeningState_def)
  have d: "deleteChannelOpeningState db1 outpoint_a = Inr db2"
    by (simp add: db2_def db1_def saveChannelOpeningState_def deleteChannelOpeningState_def
        Put_def CreateTopLevelBucket_def)
  have l: "\<forall>x \<in> set later. op_target x \<noteq> outpoint_a \<and> length (Hash (op_target x)) = 32"
    by (simp add: later_def outpoint_a_def outpoint_b_def)
  have h: "length (Hash outpoint_a) = 32"
    by (simp add: outpoint_a_def)
  have r: "packed_NewShortChanIDFromInt (packed_ToUint64 scid_ok) = scid_ok"
    by (simp add: packed_NewShortChanIDFromInt_def packed_ToUint64_def scid_ok_def)
  show ?thesis
    using opening_state_roundtrip [of BigEndian packed_ToUint64 Map.empty outpoint_a
        fundingLockedSent scid_ok db1 later packed_NewShortChanIDFromInt]
      opening_state_roundtrip [of BigEndian packed_ToUint64 db1 outpoint_a
        fundingLockedSent scid_ok db1 "[]" packed_NewShortChanIDFromInt db2]
      s d l h r
    unfolding db1_def db2_def later_def by blast
qed

text \<open>
  C1, as the spec words it (for every short channel id), fails: saved at block 700000
  with transaction index \<open>2 ^ 24 + 7\<close> and output 1, the short channel id comes back
  from the store as block 700001, transaction index 7, output 1.
\<close>

theorem opening_state_roundtrip_counterexample:
  "\<exists>db1. saveChannelOpeningState BigEndian packed_ToUint64 Map.empty outpoint_a markedOpen
       scid_wide = Inr db1
     \<and> getChannelOpeningState BigEndian packed_NewShortChanIDFromInt db1 outpoint_a
       = Inr (markedOpen, \<lparr>BlockHeight = 700001, TxIndex = 7, TxPosition = 1\<rparr>)
     \<and> getChannelOpeningState BigEndian packed_NewShortChanIDFromInt db1 outpoint_a
       \<noteq> Inr (markedOpen, scid_wide)"
proof -
  obtain db1 where s: "saveChannelOpeningState BigEndian packed_ToUint64 Map.empty outpoint_a
      markedOpen scid_wide = Inr db1"
    by (simp add: saveChannelOpeningState_def)
  have r: "packed_NewShortChanIDFromInt (packed_ToUint64 scid_wide)
      = \<lparr>BlockHeight = 700001, TxIndex = 7, TxPosition = 1\<rparr>"
    by (simp add: packed_NewShortChanIDFromInt_def packed_ToUint64_def scid_wide_def)
  from s have "stored_record db1 outpoint_a
      = Some (PutUint16 BigEndian (ucast markedOpen)
          @ PutUint64 BigEndian (packed_ToUint64 scid_wide))"
    by (rule stored_record_save)
  then have g: "getChannelOpeningState BigEndian packed_NewShortChanIDFromInt db1 outpoint_a
      = Inr (markedOpen, \<lparr>BlockHeight = 700001, TxIndex = 7, TxPosition = 1\<rparr>)"
    unfolding r [symmetric] by (rule get_of_saved_value)
  have "\<lparr>BlockHeight = 700001, TxIndex = 7, TxPosition = 1\<rparr> \<noteq> scid_wide"
    by (simp add: scid_wide_def)
  with s g show ?thesis
    by simp
qed

text \<open>
  C8, as the code has it. The record that \<open>saveChannelOpeningState\<close> writes into the
  bucket \<open>channelOpeningState\<close> is stored under the serialised outpoint (the hash
  followed by the 4-byte little-endian index) and is 10 bytes long: the state ordinal in
  2 bytes followed by the packed short channel id in 8 bytes, both in the one byte order
  \<open>byteOrder\<close> of the package. So both fields are big-endian or both are little-endian.
\<close>

theorem opening_state_record_layout:
  "\<exists>db' bucket.
     saveChannelOpeningState byteOrder ToUint64 db chanPoint s scid = Inr db' \<and>
     db' channelOpeningStateBucket = Some bucket \<and>
     bucket (Hash chanPoint @ PutUint32 LittleEndian (Index chanPoint))
       = Some (PutUint16 byteOrder (ucast s) @ PutUint64 byteOrder (ToUint64 scid)) \<and>
     length (PutUint16 byteOrder (ucast s :: 16 word) @ PutUint64 byteOrder (ToUint64 scid))
       = 10 \<and>
     PutUint16 byteOrder (ucast s) = (case byteOrder of BigEndian \<Rightarrow> [0, s]
       | LittleEndian \<Rightarrow> [s, 0])"
proof -
  have z: "(ucast (drop_bit 8 (ucast s :: 16 word)) :: byte) = 0"
    by (rule bit_word_eqI) (auto simp add: bit_simps dest: bit_imp_le_length)
  show ?thesis
    by (cases byteOrder)
      (simp_all add: saveChannelOpeningState_def Put_def CreateTopLevelBucket_def
        writeOutpoint_def z ucast_state_roundtrip split: option.splits)
qed

text \<open>
  C8, as the spec words it (state ordinal little-endian, short channel id big-endian),
  fails for either byte order the package can have: with state \<open>fundingLockedSent\<close>
  and packed short channel id 5, a big-endian package writes the state as \<open>00 01\<close>, and a
  little-endian package writes the short channel id with its low byte first.
\<close>

theorem opening_state_record_layout_counterexample:
  "saved_value BigEndian (\<lambda>w. w) Map.empty outpoint_a fundingLockedSent (5 :: 64 word)
     \<noteq> Some (spec_record_value fundingLockedSent 5)
   \<and> saved_value LittleEndian (\<lambda>w. w) Map.empty outpoint_a fundingLockedSent (5 :: 64 word)
     \<noteq> Some (spec_record_value fundingLockedSent 5)"
  by (simp add: saved_value_def saveChannelOpeningState_def stored_record_def Put_def
      CreateTopLevelBucket_def spec_record_value_def fundingLockedSent_def)


subsection \<open>The channel announcement\<close>

lemma bytes_Compare_lexord:
  "bytes_Compare a b = - 1 \<longleftrightarrow> (a, b) \<in> lexord {(x, y). x < y}"
  by (induction a b rule: bytes_Compare.induct) auto

lemma bytes_Compare_total:
  "bytes_Compare a b \<noteq> - 1 \<Longrightarrow> a \<noteq> b \<Longrightarrow> bytes_Compare b a = - 1"
  by (induction a b rule: bytes_Compare.induct) (auto split: if_splits)

lemma copy33_id: "length k = 33 \<Longrightarrow> copy33 k = k"
  by (simp add: copy33_def)

lemma newChanAnnouncement_Inr:
  assumes "newChanAnnouncement cfg l r lf rf scid cid mn mx = Inr a"
  shows "chanAnn a = (if bytes_Compare l r = - 1
           then \<lparr>ca_ShortChannelID = scid, ca_ChainHash = GenesisHash cfg,
                  NodeID1 = copy33 l, NodeID2 = copy33 r,
                  BitcoinKey1 = copy33 lf, BitcoinKey2 = copy33 rf\<rparr>
           else \<lparr>ca_ShortChannelID = scid, ca_ChainHash = GenesisHash cfg,
                  NodeID1 = copy33 r, NodeID2 = copy33 l,
                  BitcoinKey1 = copy33 rf, BitcoinKey2 = copy33 lf\<rparr>)"
    and "cu_ChannelFlags (chanUpdateAnn a) = (if bytes_Compare l r = - 1 then 0 else 1)"
  using assms
  by (auto simp add: newChanAnnouncement_def Let_def split: sum.splits if_splits)

text \<open>
  C6. For two distinct serialised identity keys (33 bytes each): if the local key is
  lexicographically smaller than the remote key, \<open>NodeID1\<close> is the local key,
  \<open>NodeID2\<close> the remote key and the direction flag of the channel update is 0;
  otherwise \<open>NodeID1\<close> is the remote key, \<open>NodeID2\<close> the local key and the flag is
  1. So \<open>NodeID1\<close> is smaller than \<open>NodeID2\<close>, and the flag is 0 exactly when our key
  is node 1. The announcement exists when the signer and the serialisers return no error.
\<close>

theorem chan_announcement_node_order:
  assumes "length localPubKey = 33" and "length remotePubKey = 33"
    and "localPubKey \<noteq> remotePubKey"
    and "newChanAnnouncement cfg localPubKey remotePubKey localFundingKey remoteFundingKey
           shortChanID chanID fwdMinHTLC fwdMaxHTLC = Inr a"
  shows "((localPubKey, remotePubKey) \<in> lexord {(x, y). x < y} \<longrightarrow>
            NodeID1 (chanAnn a) = localPubKey \<and> NodeID2 (chanAnn a) = remotePubKey \<and>
            cu_ChannelFlags (chanUpdateAnn a) = 0)
       \<and> ((localPubKey, remotePubKey) \<notin> lexord {(x, y). x < y} \<longrightarrow>
            NodeID1 (chanAnn a) = remotePubKey \<and> NodeID2 (chanAnn a) = localPubKey \<and>
            cu_ChannelFlags (chanUpdateAnn a) = 1)
       \<and> (NodeID1 (chanAnn a), NodeID2 (chanAnn a)) \<in> lexord {(x, y). x < y}
       \<and> (cu_ChannelFlags (chanUpdateAnn a) = 0 \<longleftrightarrow> NodeID1 (chanAnn a) = localPubKey)"
proof (cases "bytes_Compare localPubKey remotePubKey = - 1")
  case True
  then show ?thesis
    using assms newChanAnnouncement_Inr [OF assms(4)]
    by (simp add: copy33_id bytes_Compare_lexord [symmetric])
next
  case False
  then have "bytes_Compare remotePubKey localPubKey = - 1"
    using assms(3) by (rule bytes_Compare_total)
  with False show ?thesis
    using assms newChanAnnouncement_Inr [OF assms(4)]
    by (simp add: copy33_id bytes_Compare_lexord [symmetric])
qed

theorem chan_announcement_node_order_witness:
  "\<exists>a. newChanAnnouncement ann_env0 key_hi key_lo [7] [8] 5 [9] 1 1000 = Inr a \<and>
     length key_hi = 33 \<and> length key_lo = 33 \<and> key_hi \<noteq> key_lo \<and>
     (key_hi, key_lo) \<notin> lexord {(x, y). x < y} \<and>
     NodeID1 (chanAnn a) = key_lo \<and> NodeID2 (chanAnn a) = key_hi \<and>
     cu_ChannelFlags (chanUpdateAnn a) = 1 \<and>
     (NodeID1 (chanAnn a), NodeID2 (chanAnn a)) \<in> lexord {(x, y). x < y}"
proof -
  have "\<exists>a. newChanAnnouncement ann_env0 key_hi key_lo [7] [8] 5 [9] 1 1000 = Inr a"
    by (simp add: newChanAnnouncement_def ann_env0_def Let_def split: prod.split)
  then obtain a where a: "newChanAnnouncement ann_env0 key_hi key_lo [7] [8] 5 [9] 1 1000 = Inr a"
    by blast
  have l: "length key_hi = 33" "length key_lo = 33" "key_hi \<noteq> key_lo"
    by (simp_all add: key_hi_def key_lo_def)
  have n: "(key_hi, key_lo) \<notin> lexord {(x, y). x < y}"
    by (simp add: bytes_Compare_lexord [symmetric] key_hi_def key_lo_def)
  show ?thesis
    using chan_announcement_node_order [OF l a] a l n by blast
qed

subsection \<open>Failing a funding flow\<close>

lemma key_alice: "newSerializedKey (IdentityKey alice) = IdentityKey alice"
  by (simp add: newSerializedKey_def alice_def)
lemma key_bob: "newSerializedKey (IdentityKey bob) = IdentityKey bob"
  by (simp add: newSerializedKey_def bob_def)
lemma key_alice_bob: "IdentityKey alice \<noteq> IdentityKey bob"
  by (simp add: alice_def bob_def)

lemma activeReservations_emit [simp]: "activeReservations (emit e f) = activeReservations f"
  by (simp add: emit_def)
lemma trace_emit [simp]: "trace (emit e f) = trace f @ [e]"
  by (simp add: emit_def)

text \<open>the three ways cancelReservationCtx can go, with byRemote = False\<close>

lemma cancelReservationCtx_unknown:
  assumes "\<not> IsPendingChannel pendingChanID peer f"
  shows "\<exists>e. cancelReservationCtx (IdentityKey peer) pendingChanID byRemote f = (None, Some e, f)"
  using assms
  by (auto simp add: cancelReservationCtx_def IsPendingChannel_def Let_def split: option.splits)

lemma cancelReservationCtx_cancel_fails:
  assumes "map_of (activeReservations f) (newSerializedKey (IdentityKey peer)) = Some rs"
    and "map_of rs pendingChanID = Some ctx"
    and "Cancel (reservation ctx) = Some cerr"
  shows "cancelReservationCtx (IdentityKey peer) pendingChanID False f =
           (None, Some (ErrorString (''unable to cancel reservation: '' @ Error cerr)),
            emit (Reservation_Cancel (newSerializedKey (IdentityKey peer)) pendingChanID) f)"
  using assms by (simp add: cancelReservationCtx_def Let_def)

lemma cancelReservationCtx_ok:
  assumes "map_of (activeReservations f) (newSerializedKey (IdentityKey peer)) = Some rs"
    and "map_of rs pendingChanID = Some ctx"
    and "Cancel (reservation ctx) = None"
  shows "cancelReservationCtx (IdentityKey peer) pendingChanID False f =
           (Some ctx, None,
            (emit (Reservation_Cancel (newSerializedKey (IdentityKey peer)) pendingChanID) f)
              \<lparr>activeReservations :=
                 (if AList.delete pendingChanID rs = []
                  then AList.delete (newSerializedKey (IdentityKey peer)) (activeReservations f)
                  else AList.update (newSerializedKey (IdentityKey peer))
                         (AList.delete pendingChanID rs) (activeReservations f))\<rparr>)"
  using assms by (simp add: cancelReservationCtx_def Let_def)

lemma failFundingFlow_unknown:
  assumes "\<not> IsPendingChannel tempChanID peer f"
  shows "failFundingFlow peer tempChanID e f =
     emit (Peer_SendMessage (IdentityKey peer) False (Error_msg tempChanID (errorData e))) f"
  using cancelReservationCtx_unknown [OF assms, of False]
  by (auto simp add: failFundingFlow_def errorData_def)

lemma failFundingFlow_cancel_fails:
  assumes "map_of (activeReservations f) (newSerializedKey (IdentityKey peer)) = Some rs"
    and "map_of rs tempChanID = Some ctx"
    and "Cancel (reservation ctx) = Some cerr"
  shows "failFundingFlow peer tempChanID e f =
     emit (Peer_SendMessage (IdentityKey peer) False (Error_msg tempChanID (errorData e)))
       (emit (Reservation_Cancel (newSerializedKey (IdentityKey peer)) tempChanID) f)"
  using cancelReservationCtx_cancel_fails [OF assms]
  by (simp add: failFundingFlow_def errorData_def)

lemma failFundingFlow_ok:
  assumes "map_of (activeReservations f) (newSerializedKey (IdentityKey peer)) = Some rs"
    and "map_of rs tempChanID = Some ctx"
    and "Cancel (reservation ctx) = None"
  shows "failFundingFlow peer tempChanID e f =
     emit (Peer_SendMessage (IdentityKey peer) False (Error_msg tempChanID (errorData e)))
       (emit (Ctx_err_send (newSerializedKey (IdentityKey peer)) tempChanID e)
          ((emit (Reservation_Cancel (newSerializedKey (IdentityKey peer)) tempChanID) f)
              \<lparr>activeReservations :=
                 (if AList.delete tempChanID rs = []
                  then AList.delete (newSerializedKey (IdentityKey peer)) (activeReservations f)
                  else AList.update (newSerializedKey (IdentityKey peer))
                         (AList.delete tempChanID rs) (activeReservations f))\<rparr>))"
  using cancelReservationCtx_ok [OF assms]
  by (simp add: failFundingFlow_def errorData_def)

lemma failFundingFlow_cases:
  obtains (unknown) "\<not> IsPendingChannel tempChanID peer f"
  | (cancel_fails) rs ctx cerr where
      "map_of (activeReservations f) (newSerializedKey (IdentityKey peer)) = Some rs"
      "map_of rs tempChanID = Some ctx" "Cancel (reservation ctx) = Some cerr"
  | (ok) rs ctx where
      "map_of (activeReservations f) (newSerializedKey (IdentityKey peer)) = Some rs"
      "map_of rs tempChanID = Some ctx" "Cancel (reservation ctx) = None"
proof (cases "IsPendingChannel tempChanID peer f")
  case False
  then show thesis
    by (rule unknown)
next
  case True
  then obtain rs ctx where
    r: "map_of (activeReservations f) (newSerializedKey (IdentityKey peer)) = Some rs"
      "map_of rs tempChanID = Some ctx"
    by (auto simp add: IsPendingChannel_def Let_def split: option.splits)
  show thesis
  proof (cases "Cancel (reservation ctx)")
    case None
    with r show thesis
      by (rule ok)
  next
    case (Some cerr)
    with r show thesis
      by (rule cancel_fails)
  qed
qed

lemma failFundingFlow_trace_last:
  "\<exists>evs. trace (failFundingFlow peer tempChanID e f) =
     trace f @ evs @ [Peer_SendMessage (IdentityKey peer) False (Error_msg tempChanID (errorData e))]"
proof (cases rule: failFundingFlow_cases [of tempChanID peer f])
  case unknown
  then show ?thesis by (simp add: failFundingFlow_unknown)
next
  case (cancel_fails rs ctx cerr)
  then show ?thesis by (simp add: failFundingFlow_cancel_fails)
next
  case (ok rs ctx)
  then show ?thesis by (simp add: failFundingFlow_ok)
qed


lemma errorData_cases:
  "errorData (ReservationError s) = s"
  "errorData (FundingError s) = s"
  "errorData (ErrorString s) = ''funding failed due to internal error''"
  "errorData PsbtFundingRequired = ''funding failed due to internal error''"
  by (simp_all add: errorData_def)

lemma failFundingFlow_delivers_error:
  assumes "map_of (activeReservations f) (newSerializedKey (IdentityKey peer)) = Some rs"
    and "map_of rs tempChanID = Some ctx"
    and "Cancel (reservation ctx) = None"
  shows "trace (failFundingFlow peer tempChanID e f) =
     trace f @ [Reservation_Cancel (newSerializedKey (IdentityKey peer)) tempChanID,
                Ctx_err_send (newSerializedKey (IdentityKey peer)) tempChanID e,
                Peer_SendMessage (IdentityKey peer) False (Error_msg tempChanID (errorData e))]"
  by (simp add: failFundingFlow_ok [OF assms])

text \<open>
  C7, at a reservation that exists and whose wallet refuses to cancel it:
  \<open>cancelReservationCtx\<close> then returns no context, so \<open>failFundingFlow\<close> sends the
  \<open>Error\<close> message with the text of the whitelisted error to the peer, but nothing on
  the error channel of the reservation, and the reservation stays in the registry.
\<close>

theorem failFundingFlow_stuck_reservation:
  "IsPendingChannel chan_x alice stuck_reservation \<and>
   failFundingFlow alice chan_x (ReservationError ''chan too small'') stuck_reservation =
     stuck_reservation\<lparr>trace :=
       [Reservation_Cancel (IdentityKey alice) chan_x,
        Peer_SendMessage (IdentityKey alice) False (Error_msg chan_x ''chan too small'')]\<rparr>"
proof -
  have m: "map_of (activeReservations stuck_reservation) (newSerializedKey (IdentityKey alice))
      = Some [(chan_x, ctx_of alice (wallet_res\<lparr>Cancel := Some (ErrorString ''wallet busy'')\<rparr>) 5)]"
    by (simp add: stuck_reservation_def fm_of_def key_alice)
  have c: "Cancel (reservation (ctx_of alice
      (wallet_res\<lparr>Cancel := Some (ErrorString ''wallet busy'')\<rparr>) 5)) = Some (ErrorString ''wallet busy'')"
    by (simp add: ctx_of_def)
  have "IsPendingChannel chan_x alice stuck_reservation"
    by (simp add: IsPendingChannel_def m)
  moreover have "failFundingFlow alice chan_x (ReservationError ''chan too small'')
      stuck_reservation =
     stuck_reservation\<lparr>trace :=
       [Reservation_Cancel (IdentityKey alice) chan_x,
        Peer_SendMessage (IdentityKey alice) False (Error_msg chan_x ''chan too small'')]\<rparr>"
    by (subst failFundingFlow_cancel_fails [OF m _ c])
      (simp_all add: key_alice emit_def errorData_cases stuck_reservation_def fm_of_def)
  ultimately show ?thesis
    by simp
qed

text \<open>
  C10. \<open>failFundingFlow\<close> always ends by handing the peer an \<open>Error\<close> message for the
  temporary channel id. When the registry has no reservation context for the peer and
  the channel id, \<open>cancelReservationCtx\<close> returns an error, and the message is the only
  thing that happens: no wallet cancel, nothing on an error channel, the registry as
  it was.
\<close>

theorem failFundingFlow_always_sends_error:
  "(\<exists>evs. trace (failFundingFlow peer tempChanID fundingErr f) =
      trace f @ evs @
      [Peer_SendMessage (IdentityKey peer) False
         (Error_msg tempChanID (errorData fundingErr))])
   \<and> (\<not> IsPendingChannel tempChanID peer f \<longrightarrow>
        fst (snd (cancelReservationCtx (IdentityKey peer) tempChanID False f)) \<noteq> None \<and>
        trace (failFundingFlow peer tempChanID fundingErr f) =
          trace f @ [Peer_SendMessage (IdentityKey peer) False
                       (Error_msg tempChanID (errorData fundingErr))] \<and>
        activeReservations (failFundingFlow peer tempChanID fundingErr f) =
          activeReservations f)"
proof (intro conjI impI)
  show "\<exists>evs. trace (failFundingFlow peer tempChanID fundingErr f) =
      trace f @ evs @
      [Peer_SendMessage (IdentityKey peer) False
         (Error_msg tempChanID (errorData fundingErr))]"
    by (rule failFundingFlow_trace_last)
next
  assume n: "\<not> IsPendingChannel tempChanID peer f"
  from cancelReservationCtx_unknown [OF n, of False]
  show "fst (snd (cancelReservationCtx (IdentityKey peer) tempChanID False f)) \<noteq> None"
    by auto
  from n show "trace (failFundingFlow peer tempChanID fundingErr f) =
      trace f @ [Peer_SendMessage (IdentityKey peer) False
                   (Error_msg tempChanID (errorData fundingErr))]"
    by (simp add: failFundingFlow_unknown)
  from n show "activeReservations (failFundingFlow peer tempChanID fundingErr f) =
      activeReservations f"
    by (simp add: failFundingFlow_unknown)
qed

theorem failFundingFlow_always_sends_error_witness:
  "\<not> IsPendingChannel chan_x alice (fm_of []) \<and>
   trace (failFundingFlow alice chan_x (ErrorString ''database is closed'') (fm_of [])) =
     [Peer_SendMessage (IdentityKey alice) False
        (Error_msg chan_x ''funding failed due to internal error'')] \<and>
   activeReservations (failFundingFlow alice chan_x (ErrorString ''database is closed'')
     (fm_of [])) = []"
proof -
  have n: "\<not> IsPendingChannel chan_x alice (fm_of [])"
    by (simp add: IsPendingChannel_def fm_of_def)
  show ?thesis
    using failFundingFlow_always_sends_error
      [of alice chan_x "ErrorString ''database is closed''" "fm_of []"] n
    by (simp add: errorData_cases fm_of_def)
qed

subsection \<open>The zombie sweep\<close>

lemma set_AList_update: "set (AList.update k v al) \<subseteq> insert (k, v) (set al)"
  by (induction al) auto

lemma collectZombies_peer_sound:
  "(i, c) \<in> set (collectZombies_peer cfg now rs z) \<Longrightarrow>
   (i, c) \<in> set z \<or>
   ((i, c) \<in> set rs \<and> \<not> isLocked c \<and> \<not> IsPsbt (reservation c) \<and>
    time_Since now (lastUpdated c) > ReservationTimeout cfg)"
proof (induction rs arbitrary: z)
  case Nil
  then show ?case by simp
next
  case (Cons a rs)
  obtain j d where a: "a = (j, d)" by (cases a)
  show ?case
  proof (cases "\<not> isLocked d \<and> \<not> IsPsbt (reservation d) \<and>
      time_Since now (lastUpdated d) > ReservationTimeout cfg")
    case True
    with Cons.prems a have "(i, c) \<in> set (collectZombies_peer cfg now rs (AList.update j d z))"
      by (simp add: Let_def)
    from Cons.IH [OF this] True a set_AList_update [of j d z] show ?thesis
      by auto
  next
    case False
    with Cons.prems a have "(i, c) \<in> set (collectZombies_peer cfg now rs z)"
      by (auto simp add: Let_def split: if_splits)
    from Cons.IH [OF this] show ?thesis
      by auto
  qed
qed

lemma collectZombies_sound:
  "(i, c) \<in> set (collectZombies cfg now ar z) \<Longrightarrow>
   (i, c) \<in> set z \<or>
   ((\<exists>k rs. (k, rs) \<in> set ar \<and> (i, c) \<in> set rs) \<and> \<not> isLocked c \<and>
    \<not> IsPsbt (reservation c) \<and> time_Since now (lastUpdated c) > ReservationTimeout cfg)"
proof (induction ar arbitrary: z)
  case Nil
  then show ?case by simp
next
  case (Cons a ar)
  obtain k rs where a: "a = (k, rs)" by (cases a)
  with Cons.prems have "(i, c) \<in> set (collectZombies cfg now ar (collectZombies_peer cfg now rs z))"
    by simp
  from Cons.IH [OF this] show ?case
    using a by (auto dest: collectZombies_peer_sound)
qed

lemma since1: "time_Since now1 5 = 999999999995" "time_Since now1 6 = 999999999994"
  by (simp_all add: time_Since_def now1_def)

lemma collect_two: "collectZombies cfg0 now1 (activeReservations two_peers) [] = [(chan_x, ctx_of bob wallet_res 6)]"
  by (simp add: two_peers_def fm_of_def isLocked_def ctx_of_def wallet_res_def since1 cfg0_def)

lemma prune_two:
  "pruneZombieReservations cfg0 now1 two_peers =
     two_peers\<lparr>activeReservations := [(IdentityKey alice, [(chan_x, ctx_of alice wallet_res 5)])],
        trace := [Reservation_Cancel (IdentityKey bob) chan_x,
                  Ctx_err_send (IdentityKey bob) chan_x (zombieError (ctx_of bob wallet_res 6) chan_x),
                  Peer_SendMessage (IdentityKey bob) False
                    (Error_msg chan_x ''funding failed due to internal error'')]\<rparr>"
proof -
  have c: "ctx_peer (ctx_of bob wallet_res 6) = bob" "Cancel (reservation (ctx_of bob wallet_res 6)) = None"
    by (simp_all add: ctx_of_def wallet_res_def)
  have m: "map_of (activeReservations two_peers) (newSerializedKey (IdentityKey bob))
      = Some [(chan_x, ctx_of bob wallet_res 6)]"
    using key_alice_bob by (simp add: two_peers_def fm_of_def key_bob)
  have "failFundingFlow bob chan_x (zombieError (ctx_of bob wallet_res 6) chan_x) two_peers = 
     two_peers\<lparr>activeReservations := [(IdentityKey alice, [(chan_x, ctx_of alice wallet_res 5)])],
        trace := [Reservation_Cancel (IdentityKey bob) chan_x,
                  Ctx_err_send (IdentityKey bob) chan_x (zombieError (ctx_of bob wallet_res 6) chan_x),
                  Peer_SendMessage (IdentityKey bob) False
                    (Error_msg chan_x ''funding failed due to internal error'')]\<rparr>"
    using key_alice_bob
    by (subst failFundingFlow_ok [OF m _ c(2)])
      (simp_all add: key_bob emit_def two_peers_def fm_of_def errorData_def zombieError_def)
  then show ?thesis
    by (simp add: pruneZombieReservations_def collect_two c)
qed


text \<open>
  C5, at two peers that each hold a reservation under the same pending channel id,
  neither locked, neither a PSBT reservation, both idle for longer than the timeout:
  the map of zombies is keyed by the channel id alone, so the second context replaces
  the first, and one run of the sweep fails only the second. The first stays in the
  registry and nothing is sent for it.
\<close>

theorem zombie_sweep_colliding_ids:
  "\<not> isLocked (ctx_of alice wallet_res 5) \<and>
   \<not> IsPsbt (reservation (ctx_of alice wallet_res 5)) \<and>
   time_Since now1 (lastUpdated (ctx_of alice wallet_res 5)) > ReservationTimeout cfg0 \<and>
   \<not> isLocked (ctx_of bob wallet_res 6) \<and>
   \<not> IsPsbt (reservation (ctx_of bob wallet_res 6)) \<and>
   time_Since now1 (lastUpdated (ctx_of bob wallet_res 6)) > ReservationTimeout cfg0 \<and>
   pruneZombieReservations cfg0 now1 two_peers =
     two_peers\<lparr>activeReservations :=
                  [(IdentityKey alice, [(chan_x, ctx_of alice wallet_res 5)])],
        trace := [Reservation_Cancel (IdentityKey bob) chan_x,
                  Ctx_err_send (IdentityKey bob) chan_x
                    (zombieError (ctx_of bob wallet_res 6) chan_x),
                  Peer_SendMessage (IdentityKey bob) False
                    (Error_msg chan_x ''funding failed due to internal error'')]\<rparr>"
  using prune_two
  by (simp add: isLocked_def ctx_of_def wallet_res_def since1 cfg0_def)


subsection \<open>The PSBT branch of \<open>handleFundingAccept\<close>\<close>

lemma getReservationCtx_Inr:
  "getReservationCtx peerKey i f = Inr c \<longleftrightarrow>
     (\<exists>rs. map_of (activeReservations f) (newSerializedKey peerKey) = Some rs \<and> map_of rs i = Some c)"
  by (auto simp add: getReservationCtx_def Let_def split: option.splits)

lemma trace_updateTimestamp_deferred [simp]:
  "trace (updateTimestamp_deferred now k i f) = trace f"
  by (simp add: updateTimestamp_deferred_def split: option.splits)

lemma updateTimestamp_deferred_present:
  assumes "map_of (activeReservations f) k = Some rs" and "map_of rs i = Some c"
  shows "activeReservations (updateTimestamp_deferred now k i f) =
           AList.update k (AList.update i (c\<lparr>lastUpdated := now\<rparr>) rs) (activeReservations f)"
  using assms by (simp add: updateTimestamp_deferred_def updateTimestamp_def)

lemma collectZombies_no_psbt:
  "(i, c) \<in> set (collectZombies cfg now ar []) \<Longrightarrow> \<not> IsPsbt (reservation c) \<and> \<not> isLocked c"
  by (auto dest: collectZombies_sound)

lemma handleFundingAccept_parks:
  assumes "getReservationCtx (IdentityKey peer) (PendingChannelID msg) f = Inr resCtx"
    and "\<not> MinAcceptDepth msg > MaxNumConfs env"
    and "CommitConstraints (reservation resCtx) = None"
    and "ProcessContribution (reservation resCtx) = Some PsbtFundingRequired"
    and "PsbtFundingParams (reservation resCtx) = Inr (addr, amt)"
    and "PsbtSerialize (reservation resCtx) = Inr buf"
  shows "\<exists>evs. trace (handleFundingAccept cfg env NewChanIDFromOutPoint peer msg f) =
            trace f @ evs @
            [Ctx_updates_PsbtFund (newSerializedKey (IdentityKey peer)) (PendingChannelID msg)
               addr amt buf,
             Go_waitForPsbt (newSerializedKey (IdentityKey peer)) (PendingChannelID msg)]"
    and "getReservationCtx (IdentityKey peer) (PendingChannelID msg)
            (handleFundingAccept cfg env NewChanIDFromOutPoint peer msg f)
            = Inr (resCtx\<lparr>lastUpdated := time_Now env\<rparr>)"
proof -
  let ?k = "newSerializedKey (IdentityKey peer)"
  let ?i = "PendingChannelID msg"
  from assms(1) obtain rs where rs: "map_of (activeReservations f) ?k = Some rs"
    "map_of rs ?i = Some resCtx"
    by (auto simp add: getReservationCtx_Inr)
  let ?g = "emit (Go_waitForPsbt ?k ?i)
     (emit (Ctx_updates_PsbtFund ?k ?i addr amt buf)
        (emit (Reservation_ProcessContribution ?i
           \<lparr>cc_DustLimit = DustLimit msg,
            cc_ChanReserve = RequiredRemoteChanReserve cfg (chanAmt resCtx) (DustLimit msg),
            cc_MaxPendingAmount = remoteMaxValue resCtx,
            cc_MinHTLC = remoteMinHtlc resCtx,
            cc_MaxAcceptedHtlcs = remoteMaxHtlcs resCtx,
            cc_CsvDelay = remoteCsvDelay resCtx\<rparr>)
          (emit (Reservation_CommitConstraints ?i
             \<lparr>cc_DustLimit = DustLimit msg, cc_ChanReserve = ChannelReserve msg,
              cc_MaxPendingAmount = MaxValueInFlight msg, cc_MinHTLC = HtlcMinimum msg,
              cc_MaxAcceptedHtlcs = MaxAcceptedHTLCs msg, cc_CsvDelay = CsvDelay msg\<rparr>
             (maxLocalCsv resCtx))
            (emit (Reservation_SetNumConfsRequired ?i (ucast (MinAcceptDepth msg))) f))))"
  have h: "handleFundingAccept cfg env NewChanIDFromOutPoint peer msg f =
      updateTimestamp_deferred (time_Now env) ?k ?i ?g"
    using assms by (simp add: handleFundingAccept_def Let_def)
  have u: "activeReservations (updateTimestamp_deferred (time_Now env) ?k ?i ?g) =
      AList.update ?k (AList.update ?i (resCtx\<lparr>lastUpdated := time_Now env\<rparr>) rs)
        (activeReservations f)"
    using rs by (simp add: updateTimestamp_deferred_present [where rs = rs and c = resCtx])
  show "\<exists>evs. trace (handleFundingAccept cfg env NewChanIDFromOutPoint peer msg f) =
            trace f @ evs @
            [Ctx_updates_PsbtFund ?k ?i addr amt buf, Go_waitForPsbt ?k ?i]"
    unfolding h by simp
  show "getReservationCtx (IdentityKey peer) ?i
            (handleFundingAccept cfg env NewChanIDFromOutPoint peer msg f)
            = Inr (resCtx\<lparr>lastUpdated := time_Now env\<rparr>)"
    unfolding h getReservationCtx_Inr u by (simp add: update_conv')
qed

text \<open>
  C9, as the code has it. When \<open>handleFundingAccept\<close> gets \<open>PsbtFundingRequired\<close>
  from the wallet and starts \<open>waitForPsbt\<close>, its deferred \<open>updateTimestamp\<close> writes
  the clock into the parked context: after the handler the context has
  \<open>lastUpdated = time.Now()\<close>, so \<open>isLocked\<close> holds only if the clock reads the zero
  instant. What keeps the sweep from the parked context is the wallet reservation: no
  run of the sweep, at any later time and under any configuration, collects a context
  whose reservation reports \<open>IsPsbt\<close>.
\<close>

theorem psbt_parked_reservation_timestamp:
  assumes "getReservationCtx (IdentityKey peer) (PendingChannelID msg) f = Inr resCtx"
    and "\<not> MinAcceptDepth msg > MaxNumConfs env"
    and "CommitConstraints (reservation resCtx) = None"
    and "ProcessContribution (reservation resCtx) = Some PsbtFundingRequired"
    and "PsbtFundingParams (reservation resCtx) = Inr (addr, amt)"
    and "PsbtSerialize (reservation resCtx) = Inr buf"
  shows "(\<exists>evs. trace (handleFundingAccept cfg env NewChanIDFromOutPoint peer msg f) =
            trace f @ evs @
            [Ctx_updates_PsbtFund (newSerializedKey (IdentityKey peer)) (PendingChannelID msg)
               addr amt buf,
             Go_waitForPsbt (newSerializedKey (IdentityKey peer)) (PendingChannelID msg)])
       \<and> getReservationCtx (IdentityKey peer) (PendingChannelID msg)
            (handleFundingAccept cfg env NewChanIDFromOutPoint peer msg f)
            = Inr (resCtx\<lparr>lastUpdated := time_Now env\<rparr>)
       \<and> (isLocked (resCtx\<lparr>lastUpdated := time_Now env\<rparr>) \<longleftrightarrow> time_Now env = 0)
       \<and> (IsPsbt (reservation resCtx) \<longrightarrow>
            (PendingChannelID msg, resCtx\<lparr>lastUpdated := time_Now env\<rparr>) \<notin>
              set (collectZombies cfg' now'
                     (activeReservations
                        (handleFundingAccept cfg env NewChanIDFromOutPoint peer msg f)) []))"
proof -
  have 3: "isLocked (resCtx\<lparr>lastUpdated := time_Now env\<rparr>) \<longleftrightarrow> time_Now env = 0"
    by (simp add: isLocked_def)
  have 4: "IsPsbt (reservation resCtx) \<longrightarrow>
            (PendingChannelID msg, resCtx\<lparr>lastUpdated := time_Now env\<rparr>) \<notin>
              set (collectZombies cfg' now'
                     (activeReservations
                        (handleFundingAccept cfg env NewChanIDFromOutPoint peer msg f)) [])"
    using collectZombies_no_psbt [of "PendingChannelID msg"
        "resCtx\<lparr>lastUpdated := time_Now env\<rparr>"]
    by auto
  from handleFundingAccept_parks [OF assms] 3 4 show ?thesis
    by blast
qed

lemma psbt_flow_ctx:
  "getReservationCtx (IdentityKey alice) (PendingChannelID accept_msg) psbt_flow
     = Inr (ctx_of alice psbt_res 5)"
  by (simp add: getReservationCtx_def psbt_flow_def fm_of_def key_alice accept_msg_def)

lemma psbt_flow_facts:
  "\<not> MinAcceptDepth accept_msg > MaxNumConfs env0"
  "CommitConstraints (reservation (ctx_of alice psbt_res 5)) = None"
  "ProcessContribution (reservation (ctx_of alice psbt_res 5)) = Some PsbtFundingRequired"
  "PsbtFundingParams (reservation (ctx_of alice psbt_res 5)) = Inr (''bc1qfunding'', 100000)"
  "PsbtSerialize (reservation (ctx_of alice psbt_res 5)) = Inr [112, 115, 98, 116]"
  "IsPsbt (reservation (ctx_of alice psbt_res 5))"
  "(ctx_of alice psbt_res 5)\<lparr>lastUpdated := time_Now env0\<rparr> = ctx_of alice psbt_res now1"
  by (simp_all add: accept_msg_def env0_def ctx_of_def psbt_res_def wallet_res_def)

theorem psbt_parked_reservation_timestamp_witness:
  "(\<exists>evs. trace (handleFundingAccept cfg0 env0 Hash alice accept_msg psbt_flow) =
      evs @ [Ctx_updates_PsbtFund (IdentityKey alice) chan_x ''bc1qfunding'' 100000
               [112, 115, 98, 116],
             Go_waitForPsbt (IdentityKey alice) chan_x])
   \<and> getReservationCtx (IdentityKey alice) chan_x
        (handleFundingAccept cfg0 env0 Hash alice accept_msg psbt_flow)
        = Inr (ctx_of alice psbt_res now1)
   \<and> (chan_x, ctx_of alice psbt_res now1) \<notin>
        set (collectZombies cfg0 (now1 + 10 * ReservationTimeout cfg0)
               (activeReservations (handleFundingAccept cfg0 env0 Hash alice accept_msg psbt_flow))
               [])"
  using psbt_parked_reservation_timestamp [OF psbt_flow_ctx psbt_flow_facts(1-5),
      of cfg0 Hash cfg0 "now1 + 10 * ReservationTimeout cfg0"]
  by (simp add: psbt_flow_facts(6,7) key_alice accept_msg_def psbt_flow_def fm_of_def)

text \<open>
  C9, as the spec words it, fails: after \<open>handleFundingAccept\<close> has parked the flow of
  \<open>psbt_flow\<close> (the last event is the start of \<open>waitForPsbt\<close>), the parked context
  carries the time of the handler's return, and \<open>isLocked\<close> is false.
\<close>

theorem psbt_parked_reservation_counterexample:
  "(\<exists>evs. trace (handleFundingAccept cfg0 env0 Hash alice accept_msg psbt_flow) =
      evs @ [Go_waitForPsbt (IdentityKey alice) chan_x])
   \<and> getReservationCtx (IdentityKey alice) chan_x
        (handleFundingAccept cfg0 env0 Hash alice accept_msg psbt_flow)
        = Inr (ctx_of alice psbt_res now1)
   \<and> \<not> isLocked (ctx_of alice psbt_res now1)"
proof -
  from handleFundingAccept_parks [OF psbt_flow_ctx psbt_flow_facts(1-5), of cfg0 Hash]
  have "\<exists>evs. trace (handleFundingAccept cfg0 env0 Hash alice accept_msg psbt_flow) =
      evs @ [Go_waitForPsbt (IdentityKey alice) chan_x]"
    and "getReservationCtx (IdentityKey alice) chan_x
        (handleFundingAccept cfg0 env0 Hash alice accept_msg psbt_flow)
        = Inr (ctx_of alice psbt_res now1)"
    by (auto simp add: psbt_flow_facts(7) key_alice accept_msg_def psbt_flow_def fm_of_def)
  moreover have "\<not> isLocked (ctx_of alice psbt_res now1)"
    by (simp add: isLocked_def ctx_of_def now1_def)
  ultimately show ?thesis
    by blast
qed

subsection \<open>The admission checks of \<open>handleFundingOpen\<close>\<close>

lemma extends_with_refl: "extends_with P g g"
  by (simp add: extends_with_def)

lemma extends_with_emit: "extends_with P g h \<Longrightarrow> P e \<Longrightarrow> extends_with P g (emit e h)"
  by (auto simp add: extends_with_def)

lemma extends_with_update:
  "extends_with P g h \<Longrightarrow> extends_with P g (h\<lparr>activeReservations := x\<rparr>)"
  by (simp add: extends_with_def)

lemma extends_with_updateTimestamp:
  "extends_with P g h \<Longrightarrow> extends_with P g (updateTimestamp_deferred now k i h)"
  by (simp add: extends_with_def)

lemma failFundingFlow_events:
  obtains x xs where "trace (failFundingFlow p i e g) = trace g @ x # xs"
    "x \<noteq> Wallet_IsSynced" "\<forall>req. Wallet_InitChannelReservation req \<notin> set (x # xs)"
proof (cases rule: failFundingFlow_cases [of i p g])
  case unknown
  then show ?thesis
    by (intro that [of "Peer_SendMessage (IdentityKey p) False (Error_msg i (errorData e))" "[]"])
      (simp_all add: failFundingFlow_unknown)
next
  case (cancel_fails rs ctx cerr)
  then show ?thesis
    by (intro that [of "Reservation_Cancel (newSerializedKey (IdentityKey p)) i"
          "[Peer_SendMessage (IdentityKey p) False (Error_msg i (errorData e))]"])
      (simp_all add: failFundingFlow_cancel_fails)
next
  case (ok rs ctx)
  then show ?thesis
    by (intro that [of "Reservation_Cancel (newSerializedKey (IdentityKey p)) i"
          "[Ctx_err_send (newSerializedKey (IdentityKey p)) i e,
            Peer_SendMessage (IdentityKey p) False (Error_msg i (errorData e))]"])
      (simp_all add: failFundingFlow_ok)
qed

lemma extends_with_failFundingFlow:
  assumes "extends_with P g h"
    and "\<And>k i. P (Reservation_Cancel k i)" and "\<And>k i e. P (Ctx_err_send k i e)"
    and "\<And>k m. P (Peer_SendMessage k False m)"
  shows "extends_with P g (failFundingFlow p i e h)"
proof -
  from assms(1) obtain evs where evs: "trace h = trace g @ evs" "list_all P evs"
    by (auto simp add: extends_with_def)
  show ?thesis
  proof (cases rule: failFundingFlow_cases [of i p h])
    case unknown
    then show ?thesis
      using evs assms(4) by (simp add: failFundingFlow_unknown extends_with_def)
  next
    case (cancel_fails rs ctx cerr)
    then show ?thesis
      using evs assms(2,4) by (simp add: failFundingFlow_cancel_fails extends_with_def)
  next
    case (ok rs ctx)
    then show ?thesis
      using evs assms(2,3,4) by (simp add: failFundingFlow_ok extends_with_def)
  qed
qed

lemma countReservations_filter:
  "countReservations rs n =
     n + int (length (filter (\<lambda>(i, r). \<not> IsCannedShim (reservation r)) rs))"
  by (induction rs n rule: countReservations.induct) simp_all

lemma countPendingChannels_filter:
  "countPendingChannels cs n =
     n + int (length (filter (\<lambda>c. IsPending c \<and> ThawHeight c = 0) cs))"
  by (induction cs n rule: countPendingChannels.induct) simp_all

lemma handleFundingOpen_reserve_extends:
  assumes "extends_with (\<lambda>e. True) g0 g"
  shows "extends_with (\<lambda>e. True) g0 (handleFundingOpen_reserve cfg env peer msg g)"
  unfolding handleFundingOpen_reserve_def Let_def
  by (auto split: sum.splits option.splits
      intro!: extends_with_updateTimestamp extends_with_failFundingFlow extends_with_emit
        extends_with_update assms)

lemma extends_with_trace:
  "extends_with P g h \<Longrightarrow> trace g = t @ u \<Longrightarrow> \<exists>evs. trace h = t @ u @ evs"
  by (auto simp add: extends_with_def)

lemma handleFundingOpen_passes_pending_check:
  assumes "FetchOpenChannels env = Inr channels"
    and "countPendingChannels channels
           (countReservations (reservationsOf (newSerializedKey (IdentityKey peer)) f) 0)
         < MaxPendingChannels cfg"
  shows "\<exists>evs. trace (handleFundingOpen cfg env peer msg f) =
           trace f @ [DB_FetchOpenChannels (IdentityKey peer), Wallet_IsSynced] @ evs"
proof -
  let ?f2 = "emit Wallet_IsSynced (emit (DB_FetchOpenChannels (IdentityKey peer)) f)"
  have "extends_with (\<lambda>e. True) ?f2 (handleFundingOpen cfg env peer msg f)"
    using assms
    by (auto simp add: handleFundingOpen_def Let_def
        intro!: handleFundingOpen_reserve_extends extends_with_failFundingFlow
          extends_with_emit extends_with_refl)
  then show ?thesis
    by (rule extends_with_trace) simp
qed

lemma handleFundingOpen_amount_out_of_range:
  assumes "FundingAmount msg < MinChanSize cfg \<or> FundingAmount msg > MaxChanSize cfg"
  shows "extends_with (\<lambda>e. \<forall>req. e \<noteq> Wallet_InitChannelReservation req) f
           (handleFundingOpen cfg env peer msg f)"
  using assms
  by (auto simp add: handleFundingOpen_def Let_def split: sum.splits
      intro!: extends_with_failFundingFlow extends_with_emit extends_with_refl)

lemma handleFundingOpen_reserve_starts:
  "extends_with (\<lambda>e. True) (emit (Wallet_InitChannelReservation (openReserveMsg peer msg)) g)
     (handleFundingOpen_reserve cfg env peer msg g)"
  unfolding handleFundingOpen_reserve_def Let_def
  by (auto split: sum.splits option.splits
      intro!: extends_with_updateTimestamp extends_with_failFundingFlow extends_with_emit
        extends_with_update extends_with_refl)

text \<open>
  C3, as the code has it. When \<open>FetchOpenChannels\<close> returns the channels of the
  peer, what \<open>handleFundingOpen\<close> does is exactly to fetch them and fail the flow with
  \<open>ErrMaxPendingChannels\<close>, if and only if the number of the peer's reservations that
  are no canned shims plus the number of the returned channels that are pending with
  thaw height zero is at least \<open>MaxPendingChannels\<close>; in particular when the count
  equals the maximum. When the count is below, the handler goes on to ask the wallet
  whether it is synced, which a failed flow never does.
\<close>

theorem max_pending_channels_rejection:
  assumes "FetchOpenChannels env = Inr channels"
  shows "handleFundingOpen cfg env peer msg f =
           failFundingFlow peer (PendingChannelID msg) (ErrMaxPendingChannels env)
             (emit (DB_FetchOpenChannels (IdentityKey peer)) f)
         \<longleftrightarrow>
         int (length (filter (\<lambda>(i, r). \<not> IsCannedShim (reservation r))
                        (reservationsOf (newSerializedKey (IdentityKey peer)) f)))
           + int (length (filter (\<lambda>c. IsPending c \<and> ThawHeight c = 0) channels))
         \<ge> MaxPendingChannels cfg"
proof -
  let ?n = "countPendingChannels channels
      (countReservations (reservationsOf (newSerializedKey (IdentityKey peer)) f) 0)"
  let ?f1 = "emit (DB_FetchOpenChannels (IdentityKey peer)) f"
  have n: "?n = int (length (filter (\<lambda>(i, r). \<not> IsCannedShim (reservation r))
                        (reservationsOf (newSerializedKey (IdentityKey peer)) f)))
           + int (length (filter (\<lambda>c. IsPending c \<and> ThawHeight c = 0) channels))"
    by (simp add: countPendingChannels_filter countReservations_filter)
  show ?thesis
  proof (cases "?n \<ge> MaxPendingChannels cfg")
    case True
    then have "handleFundingOpen cfg env peer msg f =
        failFundingFlow peer (PendingChannelID msg) (ErrMaxPendingChannels env) ?f1"
      using assms by (simp add: handleFundingOpen_def Let_def)
    with True n show ?thesis
      by simp
  next
    case False
    then have "?n < MaxPendingChannels cfg"
      by simp
    from handleFundingOpen_passes_pending_check [OF assms this]
    obtain evs where l: "trace (handleFundingOpen cfg env peer msg f) =
        trace f @ [DB_FetchOpenChannels (IdentityKey peer), Wallet_IsSynced] @ evs"
      by blast
    obtain x xs where r: "trace (failFundingFlow peer (PendingChannelID msg)
        (ErrMaxPendingChannels env) ?f1) = trace ?f1 @ x # xs" "x \<noteq> Wallet_IsSynced"
      by (rule failFundingFlow_events)
    from l r have "trace (handleFundingOpen cfg env peer msg f) \<noteq>
        trace (failFundingFlow peer (PendingChannelID msg) (ErrMaxPendingChannels env) ?f1)"
      by simp
    then have "handleFundingOpen cfg env peer msg f \<noteq>
        failFundingFlow peer (PendingChannelID msg) (ErrMaxPendingChannels env) ?f1"
      by auto
    with False n show ?thesis
      by simp
  qed
qed

lemma chan_x_y: "chan_y \<noteq> chan_x"
  by (simp add: chan_x_def chan_y_def)

theorem max_pending_channels_rejection_witness:
  "FetchOpenChannels env0 = Inr [] \<and>
   int (length (filter (\<lambda>(i, r). \<not> IsCannedShim (reservation r))
                  (reservationsOf (newSerializedKey (IdentityKey alice)) one_pending)))
     + int (length (filter (\<lambda>c. IsPending c \<and> ThawHeight c = 0) [])) = MaxPendingChannels cfg0 \<and>
   handleFundingOpen cfg0 env0 alice (open_msg 100000) one_pending =
     one_pending\<lparr>trace :=
       [DB_FetchOpenChannels (IdentityKey alice),
        Peer_SendMessage (IdentityKey alice) False
          (Error_msg chan_y ''number of pending channels exceed maximum'')]\<rparr>"
proof -
  have e: "FetchOpenChannels env0 = Inr []"
    by (simp add: env0_def)
  have r: "reservationsOf (newSerializedKey (IdentityKey alice)) one_pending
      = [(chan_x, ctx_of alice wallet_res 5)]"
    by (simp add: reservationsOf_def one_pending_def fm_of_def key_alice)
  have c: "int (length (filter (\<lambda>(i, r). \<not> IsCannedShim (reservation r))
                  (reservationsOf (newSerializedKey (IdentityKey alice)) one_pending)))
     + int (length (filter (\<lambda>c. IsPending c \<and> ThawHeight c = 0) [])) = MaxPendingChannels cfg0"
    by (simp add: r ctx_of_def wallet_res_def cfg0_def)
  have n: "\<not> IsPendingChannel chan_y alice (emit (DB_FetchOpenChannels (IdentityKey alice)) one_pending)"
    using chan_x_y by (simp add: IsPendingChannel_def one_pending_def fm_of_def key_alice)
  have "handleFundingOpen cfg0 env0 alice (open_msg 100000) one_pending =
      failFundingFlow alice (PendingChannelID (open_msg 100000)) (ErrMaxPendingChannels env0)
        (emit (DB_FetchOpenChannels (IdentityKey alice)) one_pending)"
    using max_pending_channels_rejection [OF e, of cfg0 alice "open_msg 100000" one_pending] c
    by simp
  also have "\<dots> = one_pending\<lparr>trace :=
       [DB_FetchOpenChannels (IdentityKey alice),
        Peer_SendMessage (IdentityKey alice) False
          (Error_msg chan_y ''number of pending channels exceed maximum'')]\<rparr>"
    using n by (simp add: open_msg_def failFundingFlow_unknown env0_def errorData_cases emit_def
        one_pending_def fm_of_def)
  finally show ?thesis
    using e c by simp
qed

text \<open>
  C3, as the spec words it, fails when the channel database cannot be read: the peer
  already holds as many reservations as \<open>MaxPendingChannels\<close> allows, so the count
  reaches the maximum whatever the database holds, but the flow is failed with the
  error of the database, which the peer sees as the generic internal error.
\<close>

theorem max_pending_channels_rejection_counterexample:
  "int (length (filter (\<lambda>(i, r). \<not> IsCannedShim (reservation r))
                  (reservationsOf (newSerializedKey (IdentityKey alice)) one_pending)))
     \<ge> MaxPendingChannels cfg0 \<and>
   handleFundingOpen cfg0 env_db_down alice (open_msg 100000) one_pending =
     one_pending\<lparr>trace :=
       [DB_FetchOpenChannels (IdentityKey alice),
        Peer_SendMessage (IdentityKey alice) False
          (Error_msg chan_y ''funding failed due to internal error'')]\<rparr> \<and>
   errorData (ErrMaxPendingChannels env_db_down) \<noteq> ''funding failed due to internal error''"
proof -
  have r: "reservationsOf (newSerializedKey (IdentityKey alice)) one_pending
      = [(chan_x, ctx_of alice wallet_res 5)]"
    by (simp add: reservationsOf_def one_pending_def fm_of_def key_alice)
  have c: "int (length (filter (\<lambda>(i, r). \<not> IsCannedShim (reservation r))
                  (reservationsOf (newSerializedKey (IdentityKey alice)) one_pending)))
     \<ge> MaxPendingChannels cfg0"
    by (simp add: r ctx_of_def wallet_res_def cfg0_def)
  have n: "\<not> IsPendingChannel chan_y alice
      (emit (DB_FetchOpenChannels (IdentityKey alice)) one_pending)"
    using chan_x_y by (simp add: IsPendingChannel_def one_pending_def fm_of_def key_alice)
  have "handleFundingOpen cfg0 env_db_down alice (open_msg 100000) one_pending =
      failFundingFlow alice chan_y (ErrorString ''database not open'')
        (emit (DB_FetchOpenChannels (IdentityKey alice)) one_pending)"
    by (simp add: handleFundingOpen_def Let_def env_db_down_def env0_def open_msg_def)
  also have "\<dots> = one_pending\<lparr>trace :=
       [DB_FetchOpenChannels (IdentityKey alice),
        Peer_SendMessage (IdentityKey alice) False
          (Error_msg chan_y ''funding failed due to internal error'')]\<rparr>"
    using n by (simp add: failFundingFlow_unknown errorData_cases emit_def one_pending_def
        fm_of_def)
  finally have h: "handleFundingOpen cfg0 env_db_down alice (open_msg 100000) one_pending =
     one_pending\<lparr>trace :=
       [DB_FetchOpenChannels (IdentityKey alice),
        Peer_SendMessage (IdentityKey alice) False
          (Error_msg chan_y ''funding failed due to internal error'')]\<rparr>" .
  have e: "errorData (ErrMaxPendingChannels env_db_down)
      \<noteq> ''funding failed due to internal error''"
    by (simp add: env_db_down_def env0_def errorData_cases)
  from c h e show ?thesis
    by (simp only: simp_thms)
qed

text \<open>
  C2, as the code has it. The two amount checks come after the pending-channel check
  and the sync check, and the check against \<open>MaxChanSize\<close> comes first. For an
  \<open>Open\<close> that has passed the two earlier checks: an amount above \<open>MaxChanSize\<close>
  fails the flow with \<open>ErrChanTooLarge\<close>; an amount not above \<open>MaxChanSize\<close> and
  below \<open>MinChanSize\<close> fails it with \<open>ErrChanTooSmall\<close>; an amount within the
  bounds, the bounds included, passes both checks, and when the push check and the
  acceptor let it through, \<open>InitChannelReservation\<close> is called. Whatever the earlier
  checks say, an \<open>Open\<close> whose amount is out of bounds never reaches
  \<open>InitChannelReservation\<close>.
\<close>

theorem funding_amount_bounds:
  "(FetchOpenChannels env = Inr channels \<and>
    int (length (filter (\<lambda>(i, r). \<not> IsCannedShim (reservation r))
                   (reservationsOf (newSerializedKey (IdentityKey peer)) f)))
      + int (length (filter (\<lambda>c. IsPending c \<and> ThawHeight c = 0) channels))
      < MaxPendingChannels cfg \<and>
    IsSynced env = (True, None) \<longrightarrow>
      (FundingAmount msg > MaxChanSize cfg \<longrightarrow>
         handleFundingOpen cfg env peer msg f =
           failFundingFlow peer (PendingChannelID msg)
             (ErrChanTooLarge env (FundingAmount msg) (MaxChanSize cfg))
             (emit Wallet_IsSynced (emit (DB_FetchOpenChannels (IdentityKey peer)) f))) \<and>
      (FundingAmount msg \<le> MaxChanSize cfg \<and> FundingAmount msg < MinChanSize cfg \<longrightarrow>
         handleFundingOpen cfg env peer msg f =
           failFundingFlow peer (PendingChannelID msg)
             (ErrChanTooSmall env (FundingAmount msg) (MinChanSize cfg))
             (emit Wallet_IsSynced (emit (DB_FetchOpenChannels (IdentityKey peer)) f))) \<and>
      (MinChanSize cfg \<le> FundingAmount msg \<and> FundingAmount msg \<le> MaxChanSize cfg \<and>
       \<not> (RejectPush cfg \<and> PushAmount msg > 0) \<and> Accept env \<longrightarrow>
         (\<exists>evs. trace (handleFundingOpen cfg env peer msg f) =
            trace f @ [DB_FetchOpenChannels (IdentityKey peer), Wallet_IsSynced,
                       Acceptor_Accept (IdentityKey peer) (PendingChannelID msg),
                       Wallet_InitChannelReservation (openReserveMsg peer msg)] @ evs)))
   \<and> (FundingAmount msg < MinChanSize cfg \<or> FundingAmount msg > MaxChanSize cfg \<longrightarrow>
        (\<exists>evs. trace (handleFundingOpen cfg env peer msg f) = trace f @ evs \<and>
           (\<forall>req. Wallet_InitChannelReservation req \<notin> set evs)))"
proof (intro conjI impI)
  assume a: "FetchOpenChannels env = Inr channels \<and>
    int (length (filter (\<lambda>(i, r). \<not> IsCannedShim (reservation r))
                   (reservationsOf (newSerializedKey (IdentityKey peer)) f)))
      + int (length (filter (\<lambda>c. IsPending c \<and> ThawHeight c = 0) channels))
      < MaxPendingChannels cfg \<and>
    IsSynced env = (True, None)"
  then have n: "\<not> countPendingChannels channels
      (countReservations (reservationsOf (newSerializedKey (IdentityKey peer)) f) 0)
      \<ge> MaxPendingChannels cfg"
    by (simp add: countPendingChannels_filter countReservations_filter)
  {
    assume "FundingAmount msg > MaxChanSize cfg"
    then show "handleFundingOpen cfg env peer msg f =
           failFundingFlow peer (PendingChannelID msg)
             (ErrChanTooLarge env (FundingAmount msg) (MaxChanSize cfg))
             (emit Wallet_IsSynced (emit (DB_FetchOpenChannels (IdentityKey peer)) f))"
      using a n by (simp add: handleFundingOpen_def Let_def)
  }
  {
    assume "FundingAmount msg \<le> MaxChanSize cfg \<and> FundingAmount msg < MinChanSize cfg"
    then show "handleFundingOpen cfg env peer msg f =
           failFundingFlow peer (PendingChannelID msg)
             (ErrChanTooSmall env (FundingAmount msg) (MinChanSize cfg))
             (emit Wallet_IsSynced (emit (DB_FetchOpenChannels (IdentityKey peer)) f))"
      using a n by (simp add: handleFundingOpen_def Let_def)
  }
  {
    assume b: "MinChanSize cfg \<le> FundingAmount msg \<and> FundingAmount msg \<le> MaxChanSize cfg \<and>
       \<not> (RejectPush cfg \<and> PushAmount msg > 0) \<and> Accept env"
    let ?f3 = "emit (Acceptor_Accept (IdentityKey peer) (PendingChannelID msg))
      (emit Wallet_IsSynced (emit (DB_FetchOpenChannels (IdentityKey peer)) f))"
    have "handleFundingOpen cfg env peer msg f = handleFundingOpen_reserve cfg env peer msg ?f3"
      using a n b by (auto simp add: handleFundingOpen_def Let_def)
    moreover have "\<exists>evs. trace (handleFundingOpen_reserve cfg env peer msg ?f3) =
        trace f @ [DB_FetchOpenChannels (IdentityKey peer), Wallet_IsSynced,
                       Acceptor_Accept (IdentityKey peer) (PendingChannelID msg),
                       Wallet_InitChannelReservation (openReserveMsg peer msg)] @ evs"
      using handleFundingOpen_reserve_starts [of peer msg ?f3 cfg env]
      by (auto simp add: extends_with_def)
    ultimately show "\<exists>evs. trace (handleFundingOpen cfg env peer msg f) =
            trace f @ [DB_FetchOpenChannels (IdentityKey peer), Wallet_IsSynced,
                       Acceptor_Accept (IdentityKey peer) (PendingChannelID msg),
                       Wallet_InitChannelReservation (openReserveMsg peer msg)] @ evs"
      by simp
  }
next
  assume "FundingAmount msg < MinChanSize cfg \<or> FundingAmount msg > MaxChanSize cfg"
  from handleFundingOpen_amount_out_of_range [OF this, of f env peer]
  show "\<exists>evs. trace (handleFundingOpen cfg env peer msg f) = trace f @ evs \<and>
           (\<forall>req. Wallet_InitChannelReservation req \<notin> set evs)"
    by (auto simp add: extends_with_def list_all_iff)
qed

lemma failFundingFlow_no_reservations:
  assumes "activeReservations g = []"
  shows "failFundingFlow p i e g =
     g\<lparr>trace := trace g @ [Peer_SendMessage (IdentityKey p) False (Error_msg i (errorData e))]\<rparr>"
proof -
  from assms have "\<not> IsPendingChannel i p g"
    by (simp add: IsPendingChannel_def)
  then show ?thesis
    by (simp add: failFundingFlow_unknown emit_def)
qed

lemma open_msg_fields:
  "PendingChannelID (open_msg a) = chan_y" "FundingAmount (open_msg a) = a"
  "PushAmount (open_msg a) = 0"
  by (simp_all add: open_msg_def)

lemma env0_fields:
  "FetchOpenChannels env0 = Inr []" "IsSynced env0 = (True, None)" "Accept env0"
  "ErrChanTooLarge env0 a m = ReservationError ''chan size exceeds maximum chan size''"
  "ErrChanTooSmall env0 a m = ReservationError ''chan size is below min chan size''"
  "ErrSynchronizingChain env0 = FundingError ''synchronizing blockchain''"
  by (simp_all add: env0_def)

lemma cfg0_fields:
  "MaxPendingChannels cfg0 = 1" "MinChanSize cfg0 = 20000" "MaxChanSize cfg0 = 16777215"
  "\<not> RejectPush cfg0"
  by (simp_all add: cfg0_def)

lemma reservationsOf_empty: "reservationsOf k (fm_of []) = []"
  by (simp add: reservationsOf_def fm_of_def)

theorem funding_amount_bounds_witness:
  "handleFundingOpen cfg0 env0 alice (open_msg 19999) (fm_of []) =
     (fm_of [])\<lparr>trace :=
       [DB_FetchOpenChannels (IdentityKey alice), Wallet_IsSynced,
        Peer_SendMessage (IdentityKey alice) False
          (Error_msg chan_y ''chan size is below min chan size'')]\<rparr>
   \<and> handleFundingOpen cfg0 env0 alice (open_msg 16777216) (fm_of []) =
     (fm_of [])\<lparr>trace :=
       [DB_FetchOpenChannels (IdentityKey alice), Wallet_IsSynced,
        Peer_SendMessage (IdentityKey alice) False
          (Error_msg chan_y ''chan size exceeds maximum chan size'')]\<rparr>
   \<and> (\<exists>evs. trace (handleFundingOpen cfg0 env0 alice (open_msg 20000) (fm_of [])) =
        [DB_FetchOpenChannels (IdentityKey alice), Wallet_IsSynced,
         Acceptor_Accept (IdentityKey alice) chan_y,
         Wallet_InitChannelReservation (openReserveMsg alice (open_msg 20000))] @ evs)
   \<and> (\<exists>evs. trace (handleFundingOpen cfg0 env0 alice (open_msg 16777215) (fm_of [])) =
        [DB_FetchOpenChannels (IdentityKey alice), Wallet_IsSynced,
         Acceptor_Accept (IdentityKey alice) chan_y,
         Wallet_InitChannelReservation (openReserveMsg alice (open_msg 16777215))] @ evs)
   \<and> (\<forall>req. Wallet_InitChannelReservation req \<notin>
         set (trace (handleFundingOpen cfg0 env0 alice (open_msg 19999) (fm_of []))))"
proof -
  have t: "trace (fm_of []) = []"
    by (simp add: fm_of_def)
  have 1: "handleFundingOpen cfg0 env0 alice (open_msg 19999) (fm_of []) =
     (fm_of [])\<lparr>trace :=
       [DB_FetchOpenChannels (IdentityKey alice), Wallet_IsSynced,
        Peer_SendMessage (IdentityKey alice) False
          (Error_msg chan_y ''chan size is below min chan size'')]\<rparr>"
    using funding_amount_bounds [where env = env0 and channels = "[]" and peer = alice
        and f = "fm_of []" and cfg = cfg0 and msg = "open_msg 19999"]
    by (simp add: open_msg_fields env0_fields cfg0_fields reservationsOf_def
        failFundingFlow_no_reservations errorData_cases emit_def fm_of_def)
  have 2: "handleFundingOpen cfg0 env0 alice (open_msg 16777216) (fm_of []) =
     (fm_of [])\<lparr>trace :=
       [DB_FetchOpenChannels (IdentityKey alice), Wallet_IsSynced,
        Peer_SendMessage (IdentityKey alice) False
          (Error_msg chan_y ''chan size exceeds maximum chan size'')]\<rparr>"
    using funding_amount_bounds [where env = env0 and channels = "[]" and peer = alice
        and f = "fm_of []" and cfg = cfg0 and msg = "open_msg 16777216"]
    by (simp add: open_msg_fields env0_fields cfg0_fields reservationsOf_def
        failFundingFlow_no_reservations errorData_cases emit_def fm_of_def)
  have 3: "\<exists>evs. trace (handleFundingOpen cfg0 env0 alice (open_msg 20000) (fm_of [])) =
        [DB_FetchOpenChannels (IdentityKey alice), Wallet_IsSynced,
         Acceptor_Accept (IdentityKey alice) chan_y,
         Wallet_InitChannelReservation (openReserveMsg alice (open_msg 20000))] @ evs"
    using funding_amount_bounds [where env = env0 and channels = "[]" and peer = alice
        and f = "fm_of []" and cfg = cfg0 and msg = "open_msg 20000"]
    by (simp add: open_msg_fields env0_fields cfg0_fields reservationsOf_empty t)
  have 4: "\<exists>evs. trace (handleFundingOpen cfg0 env0 alice (open_msg 16777215) (fm_of [])) =
        [DB_FetchOpenChannels (IdentityKey alice), Wallet_IsSynced,
         Acceptor_Accept (IdentityKey alice) chan_y,
         Wallet_InitChannelReservation (openReserveMsg alice (open_msg 16777215))] @ evs"
    using funding_amount_bounds [where env = env0 and channels = "[]" and peer = alice
        and f = "fm_of []" and cfg = cfg0 and msg = "open_msg 16777215"]
    by (simp add: open_msg_fields env0_fields cfg0_fields reservationsOf_empty t)
  have 5: "\<forall>req. Wallet_InitChannelReservation req \<notin>
         set (trace (handleFundingOpen cfg0 env0 alice (open_msg 19999) (fm_of [])))"
    using funding_amount_bounds [where env = env0 and channels = "[]" and peer = alice
        and f = "fm_of []" and cfg = cfg0 and msg = "open_msg 19999"]
    by (auto simp add: open_msg_fields cfg0_fields t)
  from 1 2 3 4 5 show ?thesis
    by blast
qed

text \<open>
  C2, as the spec words it, fails for an \<open>Open\<close> below \<open>MinChanSize\<close> that arrives
  while the wallet is not synced: the flow is failed with \<open>ErrSynchronizingChain\<close>.
  It also fails under a configuration whose \<open>MaxChanSize\<close> lies below its
  \<open>MinChanSize\<close>: an amount between the two is below the minimum, and the flow is
  failed with \<open>ErrChanTooLarge\<close>, the check that comes first.
\<close>

theorem funding_amount_bounds_counterexample:
  "FundingAmount (open_msg 19999) < MinChanSize cfg0 \<and>
   handleFundingOpen cfg0 env_unsynced alice (open_msg 19999) (fm_of []) =
     (fm_of [])\<lparr>trace :=
       [DB_FetchOpenChannels (IdentityKey alice), Wallet_IsSynced,
        Peer_SendMessage (IdentityKey alice) False
          (Error_msg chan_y (Error (ErrSynchronizingChain env_unsynced)))]\<rparr> \<and>
   Error (ErrSynchronizingChain env_unsynced) \<noteq>
     Error (ErrChanTooSmall env_unsynced 19999 (MinChanSize cfg0)) \<and>
   FundingAmount (open_msg 15000) < MinChanSize (cfg0\<lparr>MaxChanSize := 10000\<rparr>) \<and>
   handleFundingOpen (cfg0\<lparr>MaxChanSize := 10000\<rparr>) env0 alice (open_msg 15000) (fm_of []) =
     (fm_of [])\<lparr>trace :=
       [DB_FetchOpenChannels (IdentityKey alice), Wallet_IsSynced,
        Peer_SendMessage (IdentityKey alice) False
          (Error_msg chan_y (Error (ErrChanTooLarge env0 15000 10000)))]\<rparr> \<and>
   Error (ErrChanTooLarge env0 15000 10000) \<noteq>
     Error (ErrChanTooSmall env0 15000 (MinChanSize cfg0))"
  by (simp add: handleFundingOpen_def Let_def env_unsynced_def env0_def cfg0_def
      open_msg_fields reservationsOf_def failFundingFlow_no_reservations
      errorData_cases emit_def fm_of_def)

subsection \<open>Waiting for the funding confirmation\<close>

lemma waitForTimeout_loop_closed:
  "waitForTimeout_loop maxHeight sels = timeoutChan_closed \<longleftrightarrow>
     (\<exists>before h after. sels = map Epoch_recv before @ Epoch_recv h # after \<and>
        (\<forall>b \<in> set before. b < maxHeight) \<and> maxHeight \<le> h)"
proof (induction maxHeight sels rule: waitForTimeout_loop.induct)
  case (1 maxHeight)
  then show ?case
    by simp
next
  case (2 maxHeight height rest)
  show ?case
  proof (cases "maxHeight \<le> height")
    case True
    then have "Epoch_recv height # rest = map Epoch_recv [] @ Epoch_recv height # rest \<and>
        (\<forall>b \<in> set []. b < maxHeight) \<and> maxHeight \<le> height"
      by simp
    then have "\<exists>before h after. Epoch_recv height # rest =
        map Epoch_recv before @ Epoch_recv h # after \<and>
        (\<forall>b \<in> set before. b < maxHeight) \<and> maxHeight \<le> h"
      by blast
    with True show ?thesis
      by simp
  next
    case False
    have "(\<exists>before h after. Epoch_recv height # rest =
        map Epoch_recv before @ Epoch_recv h # after \<and>
        (\<forall>b \<in> set before. b < maxHeight) \<and> maxHeight \<le> h) \<longleftrightarrow>
      (\<exists>before h after. rest = map Epoch_recv before @ Epoch_recv h # after \<and>
        (\<forall>b \<in> set before. b < maxHeight) \<and> maxHeight \<le> h)" (is "?L \<longleftrightarrow> ?R")
    proof
      assume ?L
      then obtain before h after where d: "Epoch_recv height # rest =
          map Epoch_recv before @ Epoch_recv h # after"
        "\<forall>b \<in> set before. b < maxHeight" "maxHeight \<le> h"
        by blast
      with False obtain bs where "before = height # bs"
        by (cases before) auto
      with d show ?R
        by auto
    next
      assume ?R
      then obtain before h after where d: "rest = map Epoch_recv before @ Epoch_recv h # after"
        "\<forall>b \<in> set before. b < maxHeight" "maxHeight \<le> h"
        by blast
      with False have "Epoch_recv height # rest =
          map Epoch_recv (height # before) @ Epoch_recv h # after \<and>
          (\<forall>b \<in> set (height # before). b < maxHeight) \<and> maxHeight \<le> h"
        by simp
      then show ?L
        by blast
    qed
    with False 2 show ?thesis
      by simp
  qed
next
  case (3 maxHeight rest)
  have "\<And>before h after.
      Epochs_closed # rest \<noteq> map Epoch_recv before @ Epoch_recv h # after"
    by (case_tac before) auto
  then show ?case
    by simp
next
  case (4 maxHeight rest)
  have "\<And>before h after.
      cancelChan_closed # rest \<noteq> map Epoch_recv before @ Epoch_recv h # after"
    by (case_tac before) auto
  then show ?case
    by simp
next
  case (5 maxHeight rest)
  have "\<And>before h after.
      quit_closed # rest \<noteq> map Epoch_recv before @ Epoch_recv h # after"
    by (case_tac before) auto
  then show ?case
    by simp
qed

lemma waitForTimeout_loop_not_timeout_error:
  "waitForTimeout_loop maxHeight sels \<noteq> timeoutChan_sent ErrConfirmationTimeout"
  by (induction maxHeight sels rule: waitForTimeout_loop.induct)
    (simp_all add: ErrConfirmationTimeout_def)

lemma waitForTimeout_timeout:
  "waitForTimeout ch reg sels = timeoutChan_closed \<longleftrightarrow>
     reg = None \<and>
     waitForTimeout_loop (FundingBroadcastHeight ch + maxWaitNumBlocksFundingConf) sels
       = timeoutChan_closed"
  "waitForTimeout ch reg sels \<noteq> timeoutChan_sent ErrConfirmationTimeout"
  by (auto simp add: waitForTimeout_def Let_def
      waitForTimeout_loop_not_timeout_error [unfolded ErrConfirmationTimeout_def]
      ErrConfirmationTimeout_def split: option.splits)

lemma deadline_no_overflow:
  fixes b h :: "32 word"
  assumes "unat b + 2016 < 2 ^ 32"
  shows "b + 2016 \<le> h \<longleftrightarrow> unat b + 2016 \<le> unat h"
proof -
  have "unat (b + 2016) = unat b + 2016"
    using assms by (simp add: unat_word_ariths)
  then show ?thesis
    by (simp add: word_le_nat_alt)
qed

text \<open>
  C4, as the code has it. \<open>waitForFundingWithTimeout\<close> returns
  \<open>ErrConfirmationTimeout\<close> only for a channel whose \<open>IsInitiator\<close> is false. For
  such a channel it does so exactly when the outer \<open>select\<close> takes the timeout
  signal, the registration for block epochs succeeded, and the first thing the watcher
  sees that is not a block below the deadline is a block epoch whose height, read as a
  \<open>uint32\<close>, is at least \<open>FundingBroadcastHeight + 2016\<close> computed in \<open>uint32\<close>.
  For a channel we initiated no watcher is started: the wait ends in a confirmation, in
  shutdown, or in the error of a confirmation wait that failed, never in a timeout.
\<close>

theorem confirmation_timeout_responder_only:
  "(waitForFundingWithTimeout ch r = Some (Inl ErrConfirmationTimeout) \<longrightarrow> \<not> IsInitiator ch)
   \<and> (\<not> IsInitiator ch \<longrightarrow>
        (waitForFundingWithTimeout ch r = Some (Inl ErrConfirmationTimeout) \<longleftrightarrow>
           main_case r = timeoutChan_ready \<and> RegisterBlockEpochNtfn_err r = None \<and>
           (\<exists>before h after.
              timeout_cases r = map Epoch_recv before @ Epoch_recv h # after \<and>
              (\<forall>b \<in> set before. b < FundingBroadcastHeight ch + 2016) \<and>
              FundingBroadcastHeight ch + 2016 \<le> h)))
   \<and> (IsInitiator ch \<longrightarrow>
        waitForFundingWithTimeout ch r = None \<or>
        waitForFundingWithTimeout ch r = Some (Inl ErrFundingManagerShuttingDown) \<or>
        waitForFundingWithTimeout ch r =
          Some (Inl (ErrorString ''waiting for fundingconfirmation failed'')) \<or>
        (\<exists>c. waitForFundingWithTimeout ch r = Some (Inr c)))"
proof (intro conjI impI)
  have q: "ErrFundingManagerShuttingDown \<noteq> ErrConfirmationTimeout"
    "ErrorString ''waiting for fundingconfirmation failed'' \<noteq> ErrConfirmationTimeout"
    by (simp_all add: ErrFundingManagerShuttingDown_def ErrConfirmationTimeout_def)
  show "\<not> IsInitiator ch" if "waitForFundingWithTimeout ch r = Some (Inl ErrConfirmationTimeout)"
    using that q
    by (auto simp add: waitForFundingWithTimeout_def Let_def
        split: main_select.splits conf_outcome.splits if_splits)
  show "waitForFundingWithTimeout ch r = Some (Inl ErrConfirmationTimeout) \<longleftrightarrow>
           main_case r = timeoutChan_ready \<and> RegisterBlockEpochNtfn_err r = None \<and>
           (\<exists>before h after.
              timeout_cases r = map Epoch_recv before @ Epoch_recv h # after \<and>
              (\<forall>b \<in> set before. b < FundingBroadcastHeight ch + 2016) \<and>
              FundingBroadcastHeight ch + 2016 \<le> h)" if n: "\<not> IsInitiator ch"
  proof -
    have "waitForFundingWithTimeout ch r = Some (Inl ErrConfirmationTimeout) \<longleftrightarrow>
        main_case r = timeoutChan_ready \<and>
        waitForTimeout ch (RegisterBlockEpochNtfn_err r) (timeout_cases r) = timeoutChan_closed"
      using n q waitForTimeout_timeout(2) [of ch "RegisterBlockEpochNtfn_err r" "timeout_cases r"]
      by (auto simp add: waitForFundingWithTimeout_def Let_def
          split: main_select.splits conf_outcome.splits timeout_outcome.splits)
    then show ?thesis
      by (simp add: waitForTimeout_timeout(1) waitForTimeout_loop_closed
          maxWaitNumBlocksFundingConf_def)
  qed
  show "waitForFundingWithTimeout ch r = None \<or>
        waitForFundingWithTimeout ch r = Some (Inl ErrFundingManagerShuttingDown) \<or>
        waitForFundingWithTimeout ch r =
          Some (Inl (ErrorString ''waiting for fundingconfirmation failed'')) \<or>
        (\<exists>c. waitForFundingWithTimeout ch r = Some (Inr c))" if "IsInitiator ch"
    using that
    by (auto simp add: waitForFundingWithTimeout_def Let_def
        split: main_select.splits conf_outcome.splits)
qed

theorem confirmation_timeout_responder_only_witness:
  "\<not> IsInitiator chan_theirs \<and>
   waitForFundingWithTimeout chan_theirs run_deadline = Some (Inl ErrConfirmationTimeout) \<and>
   waitForFundingWithTimeout chan_theirs run_one_short \<noteq> Some (Inl ErrConfirmationTimeout) \<and>
   IsInitiator chan_ours \<and>
   waitForFundingWithTimeout chan_ours run_deadline \<noteq> Some (Inl ErrConfirmationTimeout)"
proof -
  have n: "\<not> IsInitiator chan_theirs" "IsInitiator chan_ours"
    by (simp_all add: chan_theirs_def chan_ours_def)
  have fbh: "FundingBroadcastHeight chan_theirs + 2016 = 702016"
    by (simp add: chan_theirs_def)
  have d: "\<exists>before h after.
      timeout_cases run_deadline = map Epoch_recv before @ Epoch_recv h # after \<and>
      (\<forall>b \<in> set before. b < FundingBroadcastHeight chan_theirs + 2016) \<and>
      FundingBroadcastHeight chan_theirs + 2016 \<le> h"
    by (rule exI [of _ "[700001, 702015]"], rule exI [of _ 702016], rule exI [of _ "[]"])
      (simp add: run_deadline_def fbh)
  have m: "main_case run_deadline = timeoutChan_ready"
    "RegisterBlockEpochNtfn_err run_deadline = None"
    by (simp_all add: run_deadline_def)
  note t = confirmation_timeout_responder_only [of chan_theirs run_deadline]
  from t have "\<not> IsInitiator chan_theirs \<longrightarrow>
        (waitForFundingWithTimeout chan_theirs run_deadline = Some (Inl ErrConfirmationTimeout) \<longleftrightarrow>
           main_case run_deadline = timeoutChan_ready \<and>
           RegisterBlockEpochNtfn_err run_deadline = None \<and>
           (\<exists>before h after.
              timeout_cases run_deadline = map Epoch_recv before @ Epoch_recv h # after \<and>
              (\<forall>b \<in> set before. b < FundingBroadcastHeight chan_theirs + 2016) \<and>
              FundingBroadcastHeight chan_theirs + 2016 \<le> h))"
    by (rule conjunct1 [OF conjunct2])
  with n(1) m d have 1:
    "waitForFundingWithTimeout chan_theirs run_deadline = Some (Inl ErrConfirmationTimeout)"
    by (simp only: simp_thms)
  have s: "waitForTimeout_loop (FundingBroadcastHeight chan_theirs + maxWaitNumBlocksFundingConf)
      (timeout_cases run_one_short) = timeout_running"
    by (simp add: run_one_short_def run_deadline_def chan_theirs_def
        maxWaitNumBlocksFundingConf_def)
  have 2: "waitForFundingWithTimeout chan_theirs run_one_short \<noteq> Some (Inl ErrConfirmationTimeout)"
    using s by (simp add: waitForFundingWithTimeout_def waitForTimeout_def Let_def n
        run_one_short_def run_deadline_def)
  from confirmation_timeout_responder_only [of chan_ours run_deadline]
  have "waitForFundingWithTimeout chan_ours run_deadline = Some (Inl ErrConfirmationTimeout)
      \<longrightarrow> \<not> IsInitiator chan_ours"
    by (rule conjunct1)
  with n(2) have 3:
    "waitForFundingWithTimeout chan_ours run_deadline \<noteq> Some (Inl ErrConfirmationTimeout)"
    by blast
  from n 1 2 3 show ?thesis
    by (simp only: simp_thms)
qed

text \<open>
  C4, as the spec words it, fails in its last part: when the chain notifier refuses the
  registration for confirmations, \<open>waitForFundingConfirmation\<close> closes \<open>confChan\<close>
  without a value, and the wait of an initiator ends with the error \<open>waiting for
  fundingconfirmation failed\<close>, which is neither a confirmation nor shutdown. For a
  responder, a block at the deadline that arrives while no confirmation does is not
  enough: when \<open>quit\<close> is closed as well and the \<open>select\<close> takes it, the wait ends
  in shutdown. And the deadline is a \<open>uint32\<close> sum: for a broadcast height of
  \<open>2^32 - 1\<close> it wraps to 2015, and a block of height 3000 times the wait out.
\<close>

theorem confirmation_timeout_responder_only_counterexample:
  "IsInitiator chan_ours \<and>
   waitForFundingWithTimeout chan_ours run_notifier_down =
     Some (Inl (ErrorString ''waiting for fundingconfirmation failed'')) \<and>
   ErrorString ''waiting for fundingconfirmation failed'' \<noteq> ErrFundingManagerShuttingDown \<and>
   ErrorString ''waiting for fundingconfirmation failed'' \<noteq> ErrConfirmationTimeout \<and>
   \<not> IsInitiator chan_theirs \<and>
   waitForFundingWithTimeout chan_theirs (run_deadline\<lparr>main_case := quit_ready\<rparr>) =
     Some (Inl ErrFundingManagerShuttingDown) \<and>
   ErrFundingManagerShuttingDown \<noteq> ErrConfirmationTimeout \<and>
   waitForFundingWithTimeout (chan_theirs\<lparr>FundingBroadcastHeight := 4294967295\<rparr>)
     (run_deadline\<lparr>timeout_cases := [Epoch_recv 3000]\<rparr>) =
     Some (Inl ErrConfirmationTimeout) \<and>
   (3000 :: int) < 4294967295 + 2016"
  by (simp add: waitForFundingWithTimeout_def waitForFundingConfirmation_def
      waitForTimeout_def Let_def chan_ours_def chan_theirs_def run_notifier_down_def
      run_deadline_def maxWaitNumBlocksFundingConf_def ErrFundingManagerShuttingDown_def
      ErrConfirmationTimeout_def)


end
